theory Spec2Isabelle
  imports Complex_Main
begin

section \<open>JavaScript numbers\<close>

text \<open>
  The transfer engine computes on JavaScript numbers, which are IEEE 754 binary64
  values. A number is modelled as \<open>NaN\<close> or a rational, and the result of an arithmetic
  operation is the exact result rounded to the nearest binary64 value, ties to the even
  significand (\<open>fl\<close> below). The infinities, the negative zero and gradual underflow are
  outside the model: they take magnitudes above \<open>2^1024\<close> or below \<open>2^-1022\<close>.
  \<open>NaN\<close> behaves as in JavaScript: it propagates through arithmetic and \<open>Math.min\<close>,
  and every comparison with it is false. A property read as \<open>undefined\<close> behaves like
  \<open>NaN\<close> in all the operations used here.
\<close>

text \<open>The number of binary digits of a natural number.\<close>

function bitLength :: "nat \<Rightarrow> nat" where
  "bitLength n = (if n = 0 then 0 else Suc (bitLength (n div 2)))"
  by pat_completeness auto
termination
  by (relation "measure (\<lambda>n. n)") auto

declare bitLength.simps [simp del]

definition pow2 :: "int \<Rightarrow> rat" where
  "pow2 e = (if 0 \<le> e then 2 ^ nat e else 1 / 2 ^ nat (- e))"

text \<open>The nearest integer, a tie going to the even one.\<close>

definition roundEven :: "rat \<Rightarrow> int" where
  "roundEven y =
     (let f = \<lfloor>y\<rfloor>; d = y - of_int f
      in if d < 1 / 2 then f else if 1 / 2 < d then f + 1 else if even f then f else f + 1)"

text \<open>The exponent \<open>e\<close> of a value other than zero: \<open>2^e \<le> |x| < 2^(e+1)\<close>.\<close>

definition binade :: "rat \<Rightarrow> int" where
  "binade x =
     (if 1 \<le> \<bar>x\<bar> then int (bitLength (nat \<lfloor>\<bar>x\<bar>\<rfloor>)) - 1
      else - int (bitLength (nat (\<lceil>1 / \<bar>x\<bar>\<rceil> - 1))))"

text \<open>Rounding to binary64: a significand of 53 binary digits.\<close>

definition fl :: "rat \<Rightarrow> rat" where
  "fl x = (if x = 0 then 0
           else (let q = pow2 (binade x - 52) in of_int (roundEven (x / q)) * q))"

datatype jsnum = NaN | Num rat

fun jadd :: "jsnum \<Rightarrow> jsnum \<Rightarrow> jsnum" where
  "jadd (Num a) (Num b) = Num (fl (a + b))"
| "jadd _ _ = NaN"

fun jsub :: "jsnum \<Rightarrow> jsnum \<Rightarrow> jsnum" where
  "jsub (Num a) (Num b) = Num (fl (a - b))"
| "jsub _ _ = NaN"

fun jmul :: "jsnum \<Rightarrow> jsnum \<Rightarrow> jsnum" where
  "jmul (Num a) (Num b) = Num (fl (a * b))"
| "jmul _ _ = NaN"

text \<open>Division is only ever by the constant 100; a zero divisor is mapped to \<open>NaN\<close>.\<close>

fun jdiv :: "jsnum \<Rightarrow> jsnum \<Rightarrow> jsnum" where
  "jdiv (Num a) (Num b) = (if b = 0 then NaN else Num (fl (a / b)))"
| "jdiv _ _ = NaN"

text \<open>Negation, comparison and \<open>Math.min\<close> are exact.\<close>

fun jneg :: "jsnum \<Rightarrow> jsnum" where
  "jneg (Num a) = Num (- a)"
| "jneg NaN = NaN"

fun jlt :: "jsnum \<Rightarrow> jsnum \<Rightarrow> bool" where
  "jlt (Num a) (Num b) = (a < b)"
| "jlt _ _ = False"

fun jle :: "jsnum \<Rightarrow> jsnum \<Rightarrow> bool" where
  "jle (Num a) (Num b) = (a \<le> b)"
| "jle _ _ = False"

fun jgt :: "jsnum \<Rightarrow> jsnum \<Rightarrow> bool" where
  "jgt (Num a) (Num b) = (a > b)"
| "jgt _ _ = False"

fun jmin :: "jsnum \<Rightarrow> jsnum \<Rightarrow> jsnum" where
  "jmin (Num a) (Num b) = Num (min a b)"
| "jmin _ _ = NaN"

text \<open>\<open>v || 0\<close> on a setting that may be missing: \<open>undefined\<close>, \<open>0\<close> and \<open>NaN\<close> are falsy.\<close>

fun orZero :: "jsnum option \<Rightarrow> jsnum" where
  "orZero None = Num 0"
| "orZero (Some NaN) = Num 0"
| "orZero (Some (Num a)) = Num a"

text \<open>
  The request's \<open>amount\<close> as \<open>parseFloat\<close> sees it: a value with a numeric reading, of
  which \<open>parseFloat\<close> returns the nearest binary64 value, or one without (\<open>parseFloat\<close>
  then returns \<open>NaN\<close>).
\<close>

datatype amountInput = Numeric rat | NonNumeric

fun parseFloat :: "amountInput \<Rightarrow> jsnum" where
  "parseFloat (Numeric r) = Num (fl r)"
| "parseFloat NonNumeric = NaN"

text \<open>
  Rounding to \<open>n\<close> decimal places, as \<open>toFixed(n)\<close> followed by \<open>parseFloat\<close>:
  \<open>toFixed\<close> writes the sign, then the magnitude rounded to \<open>n\<close> places with a tie going up.
\<close>

fun roundTo :: "nat \<Rightarrow> jsnum \<Rightarrow> jsnum" where
  "roundTo n (Num x) =
     Num (fl ((if x < 0 then - 1 else 1) * of_int (round (\<bar>x\<bar> * 10 ^ n)) / 10 ^ n))"
| "roundTo n NaN = NaN"

text \<open>The sum of a list of numbers, as a loop of \<open>+\<close> would compute it.\<close>

fun sumNum :: "jsnum list \<Rightarrow> jsnum" where
  "sumNum [] = Num 0"
| "sumNum (x # xs) = jadd x (sumNum xs)"

text \<open>The rational a finite number stands for.\<close>

fun numOf :: "jsnum \<Rightarrow> rat" where
  "numOf (Num a) = a"
| "numOf NaN = 0"

section \<open>Address maps and \<open>parseAddresses\<close>\<close>

text \<open>
  An ECO wallet's address map: chain name to \<open>{address, network, balance}\<close>. A JavaScript
  object enumerates its keys in a fixed order, so the map is an association list in that
  order; \<open>null\<close> metadata is \<open>None\<close>. An array is an object whose keys are its indices.
  A chain is named after a blockchain: the names of the members of the built-in
  prototypes (\<open>constructor\<close>, \<open>hasOwnProperty\<close>, ...), which a property lookup would also
  find, are not chain names.
\<close>

record chainInfo =
  chainAddress :: "string option"
  network :: "string option"
  chainBalance :: jsnum

type_synonym addresses = "(string \<times> chainInfo) list"

text \<open>
  The wallet's \<open>address\<close> column is typed \<open>any\<close>, and so is what \<open>JSON.parse\<close> returns.
  The values of JavaScript, with objects being address maps; \<open>Other\<close> stands for
  functions, symbols and bigints.
\<close>

datatype jsval =
    Undefined
  | Null
  | Boolean bool
  | Number jsnum
  | String string
  | Object addresses
  | Other

text \<open>\<open>!v\<close>: the falsy values of JavaScript.\<close>

fun falsy :: "jsval \<Rightarrow> bool" where
  "falsy Undefined = True"
| "falsy Null = True"
| "falsy (Boolean b) = (\<not> b)"
| "falsy (Number NaN) = True"
| "falsy (Number (Num x)) = (x = 0)"
| "falsy (String s) = (s = [])"
| "falsy (Object m) = False"
| "falsy Other = False"

text \<open>
  \<open>parseAddresses\<close> (index.tsx, lines 711 to 730). \<open>JSON.parse\<close> is the runtime's: it
  is a parameter that returns the value parsed, or \<open>None\<close> where \<open>JSON.parse\<close> throws.
  The value parsed is returned as it is, whatever it is: the text \<open>5\<close> gives a number and
  the text \<open>null\<close> gives \<open>null\<close>, although the function is declared to return a map.
\<close>

fun parseAddresses :: "(string \<Rightarrow> jsval option) \<Rightarrow> jsval \<Rightarrow> jsval" where
  "parseAddresses JSON_parse address =
     (if falsy address then Object []
      else case address of
        String s \<Rightarrow> (case JSON_parse s of Some v \<Rightarrow> v | None \<Rightarrow> Object [])
      | Object m \<Rightarrow> Object m
      | _ \<Rightarrow> Object [])"

text \<open>Whether a value is an address map.\<close>

fun isMap :: "jsval \<Rightarrow> bool" where
  "isMap (Object m) = True"
| "isMap _ = False"

text \<open>
  The entries a loop over the value's keys finds: those of a map. \<open>null\<close>, a number and
  a boolean have no key to enumerate, and the keys of a string are the positions of its
  characters, which have no \<open>balance\<close>.
\<close>

fun chainsOf :: "jsval \<Rightarrow> addresses" where
  "chainsOf (Object m) = m"
| "chainsOf _ = []"

text \<open>The value after the loop has updated its entries in place.\<close>

fun withChains :: "jsval \<Rightarrow> addresses \<Rightarrow> jsval" where
  "withChains (Object m) m' = Object m'"
| "withChains v m' = v"

section \<open>The chain ledger loops\<close>

type_synonym deductionDetail = "string \<times> jsnum"

text \<open>
  The loop of \<open>deductFromEcoWallet\<close> (lines 604 to 629): the chains in key order, each
  with a positive balance giving \<open>Math.min(balance, remainingAmount)\<close>; the loop ends as
  soon as \<open>remainingAmount <= 0\<close>. The result is the updated map, the deduction details
  pushed, and the amount still remaining.
\<close>

fun deductLoop :: "addresses \<Rightarrow> jsnum \<Rightarrow> addresses \<times> deductionDetail list \<times> jsnum" where
  "deductLoop [] remainingAmount = ([], [], remainingAmount)"
| "deductLoop ((chain, info) # rest) remainingAmount =
     (if jgt (chainBalance info) (Num 0) then
        (let transferableAmount = jmin (chainBalance info) remainingAmount;
             info' = info\<lparr>chainBalance := jsub (chainBalance info) transferableAmount\<rparr>;
             remaining' = jsub remainingAmount transferableAmount
         in if jle remaining' (Num 0)
            then ((chain, info') # rest, [(chain, transferableAmount)], remaining')
            else (case deductLoop rest remaining' of
                    (rest', details, r) \<Rightarrow>
                      ((chain, info') # rest', (chain, transferableAmount) # details, r)))
      else (case deductLoop rest remainingAmount of
              (rest', details, r) \<Rightarrow> ((chain, info) # rest', details, r)))"

text \<open>What each chain visited by the loop gave, next to its balance and the amount
  remaining when it was visited: \<open>(chain, balance, remaining, given)\<close>.\<close>

fun deductTrace :: "addresses \<Rightarrow> jsnum \<Rightarrow> (string \<times> jsnum \<times> jsnum \<times> jsnum) list" where
  "deductTrace [] remainingAmount = []"
| "deductTrace ((chain, info) # rest) remainingAmount =
     (if jgt (chainBalance info) (Num 0) then
        (let transferableAmount = jmin (chainBalance info) remainingAmount;
             remaining' = jsub remainingAmount transferableAmount
         in (chain, chainBalance info, remainingAmount, transferableAmount) #
            (if jle remaining' (Num 0) then [] else deductTrace rest remaining'))
      else deductTrace rest remainingAmount)"

text \<open>
  The same for the loop of \<open>handleEcoClientBalanceTransfer\<close>, defined below as
  \<open>ecoClientLoop\<close>.
\<close>

fun clientTrace :: "addresses \<Rightarrow> jsnum \<Rightarrow> (string \<times> jsnum \<times> jsnum \<times> jsnum) list" where
  "clientTrace [] remainingAmount = []"
| "clientTrace ((chain, info) # rest) remainingAmount =
     (if jle remainingAmount (Num 0) then []
      else (let transferableAmount = jmin (chainBalance info) remainingAmount
            in (chain, chainBalance info, remainingAmount, transferableAmount) #
               clientTrace rest (jsub remainingAmount transferableAmount)))"

text \<open>
  The rounding error of the subtraction \<open>remainingAmount -= transferableAmount\<close> at a
  chain visited: what the subtraction returns less the exact difference.
\<close>

fun roundingError :: "string \<times> jsnum \<times> jsnum \<times> jsnum \<Rightarrow> rat" where
  "roundingError (chain, bal, remaining, given) =
     numOf (jsub remaining given) - (numOf remaining - numOf given)"

text \<open>
  No chain balance becomes negative: the map keeps its chains, and each chain's balance
  is either what it was or not below zero.
\<close>

definition noneBecomesNegative :: "addresses \<Rightarrow> addresses \<Rightarrow> bool" where
  "noneBecomesNegative before after =
     list_all2 (\<lambda>(c, i) (c', i'). c' = c \<and>
                  (chainBalance i' = chainBalance i \<or> jle (Num 0) (chainBalance i')))
       before after"

section \<open>Persistent state\<close>

record wallet =
  wId :: nat
  userId :: string
  currency :: "string option"
  wType :: string
  status :: bool
  balance :: jsnum
  address :: jsval

record ledgerEntry =
  ledgerWalletId :: nat
  ledgerIndex :: nat
  ledgerCurrency :: string
  ledgerChain :: string
  difference :: jsnum

record transferTransaction =
  txId :: nat
  txUserId :: "string option"
  txWalletId :: nat
  txType :: string
  amount :: jsnum
  fee :: jsnum
  txFromCurrency :: string
  txToCurrency :: "string option"
  fromWalletId :: nat
  toWalletId :: nat
  description :: string
  txStatus :: string

record adminProfit =
  profitUserId :: string
  profitAmount :: jsnum
  profitCurrency :: string
  profitFromType :: string
  profitToType :: string
  transactionId :: nat

record db =
  users :: "string list"
  wallets :: "wallet list"
  privateLedger :: "ledgerEntry list"
  transactions :: "transferTransaction list"
  adminProfits :: "adminProfit list"

text \<open>
  What is thrown: \<open>createError\<close> with a status code and a message, or the runtime's
  \<open>TypeError\<close>.
\<close>

datatype error = Err nat string | TypeError

text \<open>Whether a call returned a result rather than threw.\<close>

definition succeeds :: "(error + 'a) \<times> 's \<Rightarrow> bool" where
  "succeeds r = (case fst r of Inl e \<Rightarrow> False | Inr v \<Rightarrow> True)"

text \<open>
  Inside \<open>sequelize.transaction\<close> the callback sees a working copy. A write that is
  given the handle \<open>t\<close> changes the working copy only; a write that is not given it runs
  on a connection of its own and is committed at once, whatever becomes of the
  transaction. When the callback throws, the working copy is dropped.
\<close>

record txn =
  committed :: db
  working :: db

definition sequelize_transaction ::
  "(txn \<Rightarrow> (error + 'a) \<times> txn) \<Rightarrow> db \<Rightarrow> (error + 'a) \<times> db" where
  "sequelize_transaction callback d =
     (case callback \<lparr>committed = d, working = d\<rparr> of
        (Inl e, s) \<Rightarrow> (Inl e, committed s)
      | (Inr r, s) \<Rightarrow> (Inr r, working s))"

text \<open>\<open>models.wallet.findOne({ where: { userId, currency, type } })\<close>.\<close>

definition findOne :: "db \<Rightarrow> string \<Rightarrow> string option \<Rightarrow> string \<Rightarrow> wallet option" where
  "findOne d uid cur ty =
     find (\<lambda>w. userId w = uid \<and> currency w = cur \<and> wType w = ty) (wallets d)"

text \<open>
  \<open>models.wallet.create({ userId, currency, type, status: true })\<close>: a new row with a
  fresh id, the column defaults being a zero balance and no address.
\<close>

definition newWalletId :: "db \<Rightarrow> nat" where
  "newWalletId d = Suc (fold max (map wId (wallets d)) 0)"

definition create :: "db \<Rightarrow> string \<Rightarrow> string option \<Rightarrow> string \<Rightarrow> wallet \<times> db" where
  "create d uid cur ty =
     (let w = \<lparr>wId = newWalletId d, userId = uid, currency = cur, wType = ty,
                 status = True, balance = Num 0, address = Null\<rparr>
      in (w, d\<lparr>wallets := wallets d @ [w]\<rparr>))"

text \<open>\<open>wallet.update(values, { transaction: t })\<close>: the row with the instance's id.\<close>

definition walletUpdate :: "nat \<Rightarrow> (wallet \<Rightarrow> wallet) \<Rightarrow> txn \<Rightarrow> txn" where
  "walletUpdate i f s =
     s\<lparr>working := (working s)\<lparr>wallets :=
        map (\<lambda>w. if wId w = i then f w else w) (wallets (working s))\<rparr>\<rparr>"

text \<open>The aggregate balance of the row with a given id.\<close>

definition balanceOf :: "db \<Rightarrow> nat \<Rightarrow> jsnum option" where
  "balanceOf d i = map_option balance (find (\<lambda>w. wId w = i) (wallets d))"

section \<open>Collaborators\<close>

text \<open>
  What the transfer code takes from outside: the settings cache, the policy and metadata
  lookups, the order in which a client ECO transfer visits the chains, the ECO-specific
  wallet lookup (which may store a wallet of its own), and the runtime's JSON functions.
\<close>

record currencyData =
  precision :: nat

record env =
  feeSetting :: "jsnum option"
  requiresPrivateLedgerUpdate :: "string \<Rightarrow> string \<Rightarrow> string \<Rightarrow> bool"
  getCurrencyData :: "string \<Rightarrow> string option \<Rightarrow> currencyData option"
  getSortedChainBalances :: "jsval \<Rightarrow> addresses"
  getWalletByUserIdAndCurrency :: "db \<Rightarrow> string \<Rightarrow> string \<Rightarrow> wallet option \<times> db"
  JSON_parse :: "string \<Rightarrow> jsval option"
  JSON_stringify :: "jsval \<Rightarrow> string"

text \<open>
  Modelled from the spec: \<open>calculateTransferFee\<close> of the transfer utilities, which are
  not among the sources. Section 4.3: the fee is the amount times the configured
  percentage over 100 (\<open>processInternalTransfer\<close> computes it inline the same way).
\<close>

definition calculateTransferFee :: "jsnum \<Rightarrow> jsnum \<Rightarrow> jsnum" where
  "calculateTransferFee parsedAmount feePercentage =
     jdiv (jmul parsedAmount feePercentage) (Num 100)"

text \<open>
  Modelled from the spec: \<open>calculateNewBalance\<close> of the transfer utilities. Section 2,
  Balance Updater: a balance delta applied with the currency's precision rounding.
\<close>

definition calculateNewBalance :: "jsnum \<Rightarrow> jsnum \<Rightarrow> currencyData \<Rightarrow> jsnum" where
  "calculateNewBalance current delta cd = roundTo (precision cd) (jadd current delta)"

text \<open>
  Modelled from the spec: \<open>updateWalletBalances\<close> of the transfer utilities. Section
  4.5: the source balance goes down by the amount debited and the destination balance up
  by the amount credited, each rounded to the currency's precision, in the transaction.
\<close>

definition updateWalletBalances ::
  "wallet \<Rightarrow> wallet \<Rightarrow> jsnum \<Rightarrow> jsnum \<Rightarrow> nat \<Rightarrow> txn \<Rightarrow> txn" where
  "updateWalletBalances fromWallet toWallet debit credit prec s =
     (let s1 = walletUpdate (wId fromWallet)
                 (\<lambda>w. w\<lparr>balance := roundTo prec (jsub (balance fromWallet) debit)\<rparr>) s
      in walletUpdate (wId toWallet)
           (\<lambda>w. w\<lparr>balance := roundTo prec (jadd (balance toWallet) credit)\<rparr>) s1)"

text \<open>
  Modelled from the spec: \<open>updatePrivateLedger\<close> of the transfer utilities. Section
  4.4: an append-only record of the signed delta, keyed by wallet, currency and chain.
  The last argument says whether the call was given the transaction handle.
\<close>

definition updatePrivateLedger ::
  "nat \<Rightarrow> nat \<Rightarrow> string \<Rightarrow> string \<Rightarrow> jsnum \<Rightarrow> bool \<Rightarrow> txn \<Rightarrow> txn" where
  "updatePrivateLedger walletId index cur chain diff withT s =
     (let e = \<lparr>ledgerWalletId = walletId, ledgerIndex = index, ledgerCurrency = cur,
                 ledgerChain = chain, difference = diff\<rparr>;
          w' = (working s)\<lparr>privateLedger := privateLedger (working s) @ [e]\<rparr>
      in if withT then s\<lparr>working := w'\<rparr>
         else s\<lparr>committed := (committed s)\<lparr>privateLedger := privateLedger (committed s) @ [e]\<rparr>,
                working := w'\<rparr>)"

text \<open>
  Modelled from the spec: \<open>createTransferTransaction\<close> of the transfer utilities.
  Section 4.7: one TransferTransaction row with the fields given, in the transaction;
  the row gets a fresh id.
\<close>

definition createTransferTransaction ::
  "string option \<Rightarrow> nat \<Rightarrow> string \<Rightarrow> jsnum \<Rightarrow> jsnum \<Rightarrow> string \<Rightarrow> string option \<Rightarrow> nat \<Rightarrow> nat
     \<Rightarrow> string \<Rightarrow> string \<Rightarrow> txn \<Rightarrow> transferTransaction \<times> txn" where
  "createTransferTransaction uid walletId ty amt feeAmt fromCur toCur fromW toW descr st s =
     (let r = \<lparr>txId = length (transactions (working s)), txUserId = uid,
                 txWalletId = walletId, txType = ty, amount = amt, fee = feeAmt,
                 txFromCurrency = fromCur, txToCurrency = toCur, fromWalletId = fromW,
                 toWalletId = toW, description = descr, txStatus = st\<rparr>
      in (r, s\<lparr>working := (working s)\<lparr>transactions := transactions (working s) @ [r]\<rparr>\<rparr>))"

text \<open>
  Modelled from the spec: \<open>recordAdminProfit\<close> of the transfer utilities. Section 4.8:
  one AdminProfitRecord with the payer, the fee, the currency, the wallet types and the
  outgoing transaction's id, in the transaction.
\<close>

definition recordAdminProfit ::
  "string \<Rightarrow> jsnum \<Rightarrow> string \<Rightarrow> string \<Rightarrow> string \<Rightarrow> nat \<Rightarrow> txn \<Rightarrow> txn" where
  "recordAdminProfit uid feeAmt fromCur fromTy toTy txid s =
     (let p = \<lparr>profitUserId = uid, profitAmount = feeAmt, profitCurrency = fromCur,
                 profitFromType = fromTy, profitToType = toTy, transactionId = txid\<rparr>
      in s\<lparr>working := (working s)\<lparr>adminProfits := adminProfits (working s) @ [p]\<rparr>\<rparr>)"

section \<open>Chain ledger deduction and credit\<close>

text \<open>The private-ledger writes of a loop, one per chain and in the loop's order.\<close>

definition ledgerWrites :: "nat \<Rightarrow> string \<Rightarrow> bool \<Rightarrow> (string \<times> jsnum) list \<Rightarrow> txn \<Rightarrow> txn" where
  "ledgerWrites walletId cur withT ds s =
     fold (\<lambda>(chain, diff). updatePrivateLedger walletId 0 cur chain diff withT) ds s"

text \<open>
  \<open>deductFromEcoWallet\<close> (lines 594 to 647). Each chain visited writes
  \<open>-transferableAmount\<close> to the private ledger, in a call that is not given \<open>t\<close>; the
  writes are made before the final check, so they are there when it throws. On success
  the value parsed, with its entries updated, is stored as \<open>JSON.stringify(addresses)\<close>,
  in the transaction.
\<close>

definition deductFromEcoWallet ::
  "env \<Rightarrow> wallet \<Rightarrow> jsnum \<Rightarrow> string \<Rightarrow> txn \<Rightarrow> (error + deductionDetail list) \<times> txn" where
  "deductFromEcoWallet ev wallet amt cur s =
     (let addresses = parseAddresses (JSON_parse ev) (address wallet)
      in case deductLoop (chainsOf addresses) amt of
        (addresses', deductionDetails, remainingAmount) \<Rightarrow>
          (let s1 = ledgerWrites (wId wallet) cur False
                      (map (\<lambda>(chain, a). (chain, jneg a)) deductionDetails) s
           in if jgt remainingAmount (Num 0)
              then (Inl (Err 400 ''Insufficient chain balance to complete the transfer''), s1)
              else (Inr deductionDetails,
                    walletUpdate (wId wallet)
                      (\<lambda>w. w\<lparr>address :=
                             String (JSON_stringify ev (withChains addresses addresses'))\<rparr>) s1)))"

text \<open>
  One step of the loop of \<open>addToEcoWallet\<close> and of the client loop: the chain's entry is
  created when the map has none, then its balance is raised.
\<close>

definition creditChain :: "addresses \<Rightarrow> string \<Rightarrow> jsnum \<Rightarrow> addresses" where
  "creditChain addrs chain amt =
     (let addrs1 = (if map_of addrs chain = None
                    then addrs @ [(chain, \<lparr>chainAddress = None, network = None,
                                           chainBalance = Num 0\<rparr>)]
                    else addrs)
      in map (\<lambda>(c, i). if c = chain then (c, i\<lparr>chainBalance := jadd (chainBalance i) amt\<rparr>)
                        else (c, i)) addrs1)"

fun addLoop :: "addresses \<Rightarrow> deductionDetail list \<Rightarrow> addresses" where
  "addLoop addrs [] = addrs"
| "addLoop addrs ((chain, amt) # rest) = addLoop (creditChain addrs chain amt) rest"

text \<open>
  \<open>addToEcoWallet\<close> (lines 649 to 683): the credit of each deduction detail, its
  private-ledger write (again not given \<open>t\<close>), then the map stored in the transaction.
  When the value parsed is not a map, the first detail throws a TypeError before it
  writes anything: \<open>addresses[chain]\<close> cannot be read of \<open>null\<close>, and cannot be set on a
  number, a boolean or a string (the module is in strict mode).
\<close>

definition addToEcoWallet ::
  "env \<Rightarrow> wallet \<Rightarrow> deductionDetail list \<Rightarrow> string \<Rightarrow> txn \<Rightarrow> (error + unit) \<times> txn" where
  "addToEcoWallet ev wallet deductionDetails cur s =
     (let addresses = parseAddresses (JSON_parse ev) (address wallet)
      in if \<not> isMap addresses \<and> deductionDetails \<noteq> [] then (Inl TypeError, s)
         else (let addresses' = withChains addresses
                                  (addLoop (chainsOf addresses) deductionDetails);
                   s1 = ledgerWrites (wId wallet) cur False deductionDetails s
               in (Inr (),
                   walletUpdate (wId wallet)
                     (\<lambda>w. w\<lparr>address := String (JSON_stringify ev addresses')\<rparr>) s1)))"

text \<open>
  The loop of \<open>handleEcoClientBalanceTransfer\<close> (lines 517 to 548) over the sorted
  chains: it stops once \<open>remainingAmount <= 0\<close>, and has no test of the chain's balance.
  The result is the sender's entries, the recipient's map, what was moved per chain,
  and the amount remaining.
\<close>

fun ecoClientLoop ::
  "addresses \<Rightarrow> addresses \<Rightarrow> jsnum \<Rightarrow> addresses \<times> addresses \<times> deductionDetail list \<times> jsnum" where
  "ecoClientLoop [] toAddresses remainingAmount = ([], toAddresses, [], remainingAmount)"
| "ecoClientLoop ((chain, info) # rest) toAddresses remainingAmount =
     (if jle remainingAmount (Num 0)
      then ((chain, info) # rest, toAddresses, [], remainingAmount)
      else (let transferableAmount = jmin (chainBalance info) remainingAmount;
                info' = info\<lparr>chainBalance := jsub (chainBalance info) transferableAmount\<rparr>
            in case ecoClientLoop rest (creditChain toAddresses chain transferableAmount)
                      (jsub remainingAmount transferableAmount) of
                 (rest', to', moved, r) \<Rightarrow>
                   ((chain, info') # rest', to', (chain, transferableAmount) # moved, r)))"

text \<open>The two private-ledger writes of each chain moved, both given \<open>t\<close>.\<close>

definition clientLedgerWrites ::
  "nat \<Rightarrow> nat \<Rightarrow> string \<Rightarrow> deductionDetail list \<Rightarrow> txn \<Rightarrow> txn" where
  "clientLedgerWrites fromId toId cur moved s =
     fold (\<lambda>(chain, a) s'. updatePrivateLedger toId 0 cur chain a True
                             (updatePrivateLedger fromId 0 cur chain (jneg a) True s'))
          moved s"

text \<open>
  \<open>handleEcoClientBalanceTransfer\<close> (lines 506 to 562). Neither address map is written
  back; the balances are updated with \<open>parsedAmount\<close> for the debit and for the credit.
  When the recipient's value parsed is not a map, the first chain visited throws a
  TypeError at \<open>toAddresses[chain] = ...\<close>, before its private-ledger writes.
\<close>

definition handleEcoClientBalanceTransfer ::
  "env \<Rightarrow> wallet \<Rightarrow> wallet \<Rightarrow> jsnum \<Rightarrow> string \<Rightarrow> currencyData \<Rightarrow> txn \<Rightarrow> (error + unit) \<times> txn" where
  "handleEcoClientBalanceTransfer ev fromWallet toWallet parsedAmount fromCurrency cd s =
     (let fromAddresses = parseAddresses (JSON_parse ev) (address fromWallet);
          toAddresses = parseAddresses (JSON_parse ev) (address toWallet)
      in case ecoClientLoop (getSortedChainBalances ev fromAddresses) (chainsOf toAddresses)
                parsedAmount of
           (from', to', moved, remainingAmount) \<Rightarrow>
             if \<not> isMap toAddresses \<and> moved \<noteq> [] then (Inl TypeError, s)
             else (let s1 = clientLedgerWrites (wId fromWallet) (wId toWallet) fromCurrency
                              moved s
                   in if jgt remainingAmount (Num 0)
                      then (Inl (Err 400 ''Insufficient chain balance across all addresses.''), s1)
                      else (Inr (),
                            updateWalletBalances fromWallet toWallet parsedAmount parsedAmount
                              (precision cd) s1)))"

text \<open>\<open>handleNonClientTransfer\<close> (lines 564 to 592).\<close>

definition handleNonClientTransfer ::
  "env \<Rightarrow> wallet \<Rightarrow> wallet \<Rightarrow> jsnum \<Rightarrow> string \<Rightarrow> jsnum \<Rightarrow> currencyData \<Rightarrow> txn
     \<Rightarrow> (error + unit) \<times> txn" where
  "handleNonClientTransfer ev fromWallet toWallet parsedAmount fromCurrency targetReceiveAmount cd s =
     (if wType fromWallet = ''ECO'' \<and> wType toWallet = ''ECO'' then
        (case deductFromEcoWallet ev fromWallet parsedAmount fromCurrency s of
           (Inl e, s1) \<Rightarrow> (Inl e, s1)
         | (Inr deductionDetails, s1) \<Rightarrow>
             (case addToEcoWallet ev toWallet deductionDetails fromCurrency s1 of
                (Inl e, s2) \<Rightarrow> (Inl e, s2)
              | (Inr u, s2) \<Rightarrow>
                  (Inr (),
                   updateWalletBalances fromWallet toWallet parsedAmount targetReceiveAmount
                     (precision cd) s2)))
      else (Inr (),
            updateWalletBalances fromWallet toWallet parsedAmount targetReceiveAmount
              (precision cd) s))"

text \<open>\<open>handleCompleteTransfer\<close> (lines 473 to 504).\<close>

definition handleCompleteTransfer ::
  "env \<Rightarrow> wallet \<Rightarrow> wallet \<Rightarrow> jsnum \<Rightarrow> jsnum \<Rightarrow> string \<Rightarrow> string \<Rightarrow> string \<Rightarrow> currencyData
     \<Rightarrow> txn \<Rightarrow> (error + unit) \<times> txn" where
  "handleCompleteTransfer ev fromWallet toWallet parsedAmount targetReceiveAmount transferType
       fromType fromCurrency cd s =
     (if fromType = ''ECO'' \<and> transferType = ''client''
      then handleEcoClientBalanceTransfer ev fromWallet toWallet parsedAmount fromCurrency cd s
      else handleNonClientTransfer ev fromWallet toWallet parsedAmount fromCurrency
             targetReceiveAmount cd s)"

text \<open>\<open>handlePendingTransfer\<close> (lines 685 to 709).\<close>

definition handlePendingTransfer ::
  "wallet \<Rightarrow> wallet \<Rightarrow> jsnum \<Rightarrow> jsnum \<Rightarrow> string \<Rightarrow> currencyData \<Rightarrow> txn \<Rightarrow> txn" where
  "handlePendingTransfer fromWallet toWallet totalDeducted targetReceiveAmount transferStatus cd s =
     (let newFromBalance = calculateNewBalance (balance fromWallet) (jneg totalDeducted) cd;
          s1 = walletUpdate (wId fromWallet) (\<lambda>w. w\<lparr>balance := newFromBalance\<rparr>) s
      in if transferStatus = ''COMPLETED''
         then (let newToBalance = calculateNewBalance (balance toWallet) targetReceiveAmount cd
               in walletUpdate (wId toWallet) (\<lambda>w. w\<lparr>balance := newToBalance\<rparr>) s1)
         else s1)"

section \<open>The orchestrator\<close>

text \<open>
  The records of a transfer, as \<open>performTransaction\<close> (lines 427 to 469) and
  \<open>processInternalTransfer\<close> (lines 820 to 864) write them: the outgoing row, the
  incoming row, then the admin profit when the fee is positive.
\<close>

definition recordTransfers ::
  "string \<Rightarrow> string option \<Rightarrow> wallet \<Rightarrow> wallet \<Rightarrow> jsnum \<Rightarrow> jsnum \<Rightarrow> jsnum \<Rightarrow> string
     \<Rightarrow> string option \<Rightarrow> string \<Rightarrow> string \<Rightarrow> string \<Rightarrow> string \<Rightarrow> string \<Rightarrow> txn
     \<Rightarrow> (transferTransaction \<times> transferTransaction) \<times> txn" where
  "recordTransfers uid toUid fromWallet toWallet parsedAmount transferFeeAmount
       targetReceiveAmount fromCurrency toCurrency fromType toType descrOut descrIn
       transferStatus s =
     (case createTransferTransaction (Some uid) (wId fromWallet) ''OUTGOING_TRANSFER''
             parsedAmount transferFeeAmount fromCurrency toCurrency (wId fromWallet)
             (wId toWallet) descrOut transferStatus s of
        (fromTransfer, s1) \<Rightarrow>
          (case createTransferTransaction toUid (wId toWallet) ''INCOMING_TRANSFER''
                  targetReceiveAmount (Num 0) fromCurrency toCurrency (wId fromWallet)
                  (wId toWallet) descrIn transferStatus s1 of
             (toTransfer, s2) \<Rightarrow>
               ((fromTransfer, toTransfer),
                if jgt transferFeeAmount (Num 0)
                then recordAdminProfit uid transferFeeAmount fromCurrency fromType toType
                       (txId fromTransfer) s2
                else s2)))"

text \<open>The callback of \<open>performTransaction\<close> (lines 392 to 470).\<close>

definition performTransactionBody ::
  "env \<Rightarrow> string \<Rightarrow> wallet \<Rightarrow> wallet \<Rightarrow> jsnum \<Rightarrow> jsnum \<Rightarrow> jsnum \<Rightarrow> string \<Rightarrow> string option
     \<Rightarrow> string \<Rightarrow> string option \<Rightarrow> string \<Rightarrow> string \<Rightarrow> currencyData \<Rightarrow> txn
     \<Rightarrow> (error + transferTransaction \<times> transferTransaction) \<times> txn" where
  "performTransactionBody ev transferType fromWallet toWallet parsedAmount transferFeeAmount
       targetReceiveAmount fromCurrency toCurrency uid clientId fromType toType cd s =
     (let requiresLedgerUpdate = requiresPrivateLedgerUpdate ev transferType fromType toType;
          transferStatus = (if requiresLedgerUpdate then ''PENDING'' else ''COMPLETED'');
          mutated =
            (if \<not> requiresLedgerUpdate
             then handleCompleteTransfer ev fromWallet toWallet parsedAmount targetReceiveAmount
                    transferType fromType fromCurrency cd s
             else (Inr (),
                   handlePendingTransfer fromWallet toWallet parsedAmount targetReceiveAmount
                     transferStatus cd s))
      in case mutated of
           (Inl e, s1) \<Rightarrow> (Inl e, s1)
         | (Inr u, s1) \<Rightarrow>
             (case recordTransfers uid (if transferType = ''client'' then clientId else Some uid)
                     fromWallet toWallet parsedAmount transferFeeAmount targetReceiveAmount
                     fromCurrency toCurrency fromType toType
                     (''Transfer to '' @ toType @ '' wallet'')
                     (''Transfer from '' @ fromType @ '' wallet'') transferStatus s1 of
                (r, s2) \<Rightarrow> (Inr r, s2)))"

text \<open>\<open>performTransaction\<close> (lines 362 to 471).\<close>

definition performTransaction ::
  "env \<Rightarrow> string \<Rightarrow> wallet \<Rightarrow> wallet \<Rightarrow> jsnum \<Rightarrow> string \<Rightarrow> string option \<Rightarrow> string
     \<Rightarrow> string option \<Rightarrow> string \<Rightarrow> string \<Rightarrow> currencyData \<Rightarrow> db
     \<Rightarrow> (error + transferTransaction \<times> transferTransaction) \<times> db" where
  "performTransaction ev transferType fromWallet toWallet parsedAmount fromCurrency toCurrency
       uid clientId fromType toType cd d =
     (let walletTransferFeePercentage = orZero (feeSetting ev);
          transferFeeAmount = calculateTransferFee parsedAmount walletTransferFeePercentage;
          totalDeducted = parsedAmount;
          targetReceiveAmount = jsub parsedAmount transferFeeAmount
      in if jlt (balance fromWallet) totalDeducted
         then (Inl (Err 400 ''Insufficient balance to cover transfer and fees.''), d)
         else sequelize_transaction
                (performTransactionBody ev transferType fromWallet toWallet parsedAmount
                   transferFeeAmount targetReceiveAmount fromCurrency toCurrency uid clientId
                   fromType toType cd) d)"

section \<open>Wallet resolution and the handler\<close>

text \<open>\<open>handleClientTransfer\<close> (lines 292 to 326).\<close>

definition handleClientTransfer ::
  "env \<Rightarrow> db \<Rightarrow> string option \<Rightarrow> string \<Rightarrow> string \<Rightarrow> (error + wallet \<times> string) \<times> db" where
  "handleClientTransfer ev d clientId cur fromType =
     (case clientId of
        None \<Rightarrow> (Inl (Err 400 ''Client ID is required''), d)
      | Some cid \<Rightarrow>
          if cid = [] then (Inl (Err 400 ''Client ID is required''), d)
          else if cid \<notin> set (users d) then (Inl (Err 404 ''Target user not found''), d)
          else (case (if fromType = ''ECO''
                      then getWalletByUserIdAndCurrency ev d cid cur
                      else (case findOne d cid (Some cur) fromType of
                              Some w \<Rightarrow> (Some w, d)
                            | None \<Rightarrow> (case create d cid (Some cur) fromType of
                                         (w, d') \<Rightarrow> (Some w, d')))) of
                  (None, d1) \<Rightarrow> (Inl (Err 404 ''Target wallet not found''), d1)
                | (Some toWallet, d1) \<Rightarrow> (Inr (toWallet, cid), d1)))"

text \<open>
  The table of \<open>handleWalletTransfer\<close> (lines 337 to 342), a plain object: its own keys
  and, below, the names it inherits from \<open>Object.prototype\<close>.
\<close>

definition validTransfers :: "(string \<times> string list) list" where
  "validTransfers =
     [(''FIAT'', [''SPOT'', ''ECO'']),
      (''SPOT'', [''FIAT'', ''ECO'']),
      (''ECO'', [''FIAT'', ''SPOT'', ''FUTURES'']),
      (''FUTURES'', [''ECO''])]"

definition objectPrototypeKeys :: "string list" where
  "objectPrototypeKeys =
     [''constructor'', ''__proto__'', ''hasOwnProperty'', ''isPrototypeOf'',
      ''propertyIsEnumerable'', ''toLocaleString'', ''toString'', ''valueOf'',
      ''__defineGetter__'', ''__defineSetter__'', ''__lookupGetter__'',
      ''__lookupSetter__'']"

text \<open>
  \<open>handleWalletTransfer\<close> (lines 328 to 360). \<open>validTransfers[fromType]\<close> is undefined
  for a name the object neither has nor inherits. For an inherited name it is a function
  or the prototype, which is truthy and has no \<open>includes\<close>: calling it throws a TypeError.
\<close>

definition handleWalletTransfer ::
  "db \<Rightarrow> string \<Rightarrow> string \<Rightarrow> string \<Rightarrow> string option \<Rightarrow> (error + wallet) \<times> db" where
  "handleWalletTransfer d uid fromType toType toCurrency =
     (if fromType = toType
      then (Inl (Err 400 ''Cannot transfer to the same wallet type''), d)
      else (case map_of validTransfers fromType of
              None \<Rightarrow>
                if fromType \<in> set objectPrototypeKeys then (Inl TypeError, d)
                else (Inl (Err 400 ''Invalid wallet type transfer''), d)
            | Some allowed \<Rightarrow>
                if toType \<notin> set allowed
                then (Inl (Err 400 ''Invalid wallet type transfer''), d)
                else (case findOne d uid toCurrency toType of
                        Some w \<Rightarrow> (Inr w, d)
                      | None \<Rightarrow> (case create d uid toCurrency toType of
                                   (w, d') \<Rightarrow> (Inr w, d')))))"

record body =
  fromType :: string
  toType :: string
  amountIn :: amountInput
  transferType :: string
  clientId :: "string option"
  fromCurrency :: string
  toCurrency :: "string option"

record response =
  message :: string
  fromTransfer :: transferTransaction
  toTransfer :: transferTransaction
  resFromType :: string
  resToType :: string
  resFromCurrency :: string
  resToCurrency :: "string option"

text \<open>
  The first half of the handler (lines 194 to 246): the caller's identity, the currency
  selected, the user, the source wallet, then the destination wallet by the kind of
  transfer. \<open>user\<close> is \<open>user?.id\<close>, falsy when it is missing or empty.
\<close>

definition resolveWallets ::
  "env \<Rightarrow> db \<Rightarrow> string option \<Rightarrow> body \<Rightarrow> (error + string \<times> wallet \<times> wallet \<times> string option) \<times> db" where
  "resolveWallets ev d user b =
     (case user of
        None \<Rightarrow> (Inl (Err 401 ''Unauthorized''), d)
      | Some uid \<Rightarrow>
        if uid = [] then (Inl (Err 401 ''Unauthorized''), d)
        else if toCurrency b = Some ''Select a currency''
        then (Inl (Err 400 ''Please select a target currency''), d)
        else if uid \<notin> set (users d) then (Inl (Err 404 ''User not found''), d)
        else (case findOne d uid (Some (fromCurrency b)) (fromType b) of
                None \<Rightarrow> (Inl (Err 404 ''Wallet not found''), d)
              | Some fromWallet \<Rightarrow>
                  if transferType b = ''client''
                  then (case handleClientTransfer ev d (clientId b) (fromCurrency b) (fromType b) of
                          (Inl e, d1) \<Rightarrow> (Inl e, d1)
                        | (Inr (toWallet, toUser), d1) \<Rightarrow>
                            (Inr (uid, fromWallet, toWallet, Some toUser), d1))
                  else (case handleWalletTransfer d uid (fromType b) (toType b) (toCurrency b) of
                          (Inl e, d1) \<Rightarrow> (Inl e, d1)
                        | (Inr toWallet, d1) \<Rightarrow> (Inr (uid, fromWallet, toWallet, None), d1))))"

text \<open>
  The handler (lines 194 to 290). The e-mails of a client transfer are sent by a
  collaborator and change nothing here.
\<close>

definition createTransfer :: "env \<Rightarrow> db \<Rightarrow> string option \<Rightarrow> body \<Rightarrow> (error + response) \<times> db" where
  "createTransfer ev d user b =
     (case resolveWallets ev d user b of
        (Inl e, d1) \<Rightarrow> (Inl e, d1)
      | (Inr (uid, fromWallet, toWallet, toUser), d1) \<Rightarrow>
          (let parsedAmount = parseFloat (amountIn b)
           in if jlt (balance fromWallet) parsedAmount
              then (Inl (Err 400 ''Insufficient balance''), d1)
              else (case getCurrencyData ev (fromType b) (Some (fromCurrency b)) of
                      None \<Rightarrow> (Inl (Err 400 ''Invalid wallet type''), d1)
                    | Some cd \<Rightarrow>
                        (case performTransaction ev (transferType b) fromWallet toWallet
                                parsedAmount (fromCurrency b) (toCurrency b) uid toUser
                                (fromType b) (toType b) cd d1 of
                           (Inl e, d2) \<Rightarrow> (Inl e, d2)
                         | (Inr (fromT, toT), d2) \<Rightarrow>
                             (Inr \<lparr>message = ''Transfer initiated successfully'',
                                   fromTransfer = fromT, toTransfer = toT,
                                   resFromType = fromType b, resToType = toType b,
                                   resFromCurrency = fromCurrency b,
                                   resToCurrency = toCurrency b\<rparr>, d2)))))"

section \<open>Internal transfers between users\<close>

record internalResult =
  transaction :: "transferTransaction \<times> transferTransaction"
  resBalance :: "jsnum option"
  resMethod :: string
  resCurrency :: string

text \<open>
  The callback of \<open>processInternalTransfer\<close> (lines 789 to 865). Reading \<open>precision\<close> of
  a currency that has no metadata throws a TypeError.
\<close>

definition processInternalTransferBody ::
  "env \<Rightarrow> wallet \<Rightarrow> wallet \<Rightarrow> jsnum \<Rightarrow> jsnum \<Rightarrow> jsnum \<Rightarrow> string \<Rightarrow> string \<Rightarrow> string \<Rightarrow> txn
     \<Rightarrow> (error + transferTransaction \<times> transferTransaction) \<times> txn" where
  "processInternalTransferBody ev fromWallet toWallet parsedAmount transferFeeAmount
       targetReceiveAmount fromUserId toUserId cur s =
     (case (if wType fromWallet = ''ECO'' \<and> wType toWallet = ''ECO'' then
              (case deductFromEcoWallet ev fromWallet parsedAmount cur s of
                 (Inl e, s1) \<Rightarrow> (Inl e, s1)
               | (Inr deductionDetails, s1) \<Rightarrow>
                   (case addToEcoWallet ev toWallet deductionDetails cur s1 of
                      (Inl e, s2) \<Rightarrow> (Inl e, s2)
                    | (Inr u, s2) \<Rightarrow>
                        (case getCurrencyData ev (wType fromWallet) (currency fromWallet) of
                           None \<Rightarrow> (Inl TypeError, s2)
                         | Some cd \<Rightarrow> (Inr (precision cd), s2))))
            else (Inr 8, s)) of
        (Inl e, s1) \<Rightarrow> (Inl e, s1)
      | (Inr prec, s1) \<Rightarrow>
          (case recordTransfers fromUserId (Some toUserId) fromWallet toWallet parsedAmount
                  transferFeeAmount targetReceiveAmount cur (Some cur) ''ECO'' ''ECO''
                  (''Internal transfer to user '' @ toUserId)
                  (''Internal transfer from user '' @ fromUserId) ''COMPLETED''
                  (updateWalletBalances fromWallet toWallet parsedAmount targetReceiveAmount
                     prec s1) of
             (r, s2) \<Rightarrow> (Inr r, s2)))"

text \<open>\<open>processInternalTransfer\<close> (lines 732 to 878).\<close>

definition processInternalTransfer ::
  "env \<Rightarrow> db \<Rightarrow> string \<Rightarrow> string \<Rightarrow> string \<Rightarrow> string \<Rightarrow> amountInput
     \<Rightarrow> (error + internalResult) \<times> db" where
  "processInternalTransfer ev d fromUserId toUserId cur chain amt =
     (case findOne d fromUserId (Some cur) ''ECO'' of
        None \<Rightarrow> (Inl (Err 404 ''Sender wallet not found''), d)
      | Some fromWallet \<Rightarrow>
          (case (case findOne d toUserId (Some cur) ''ECO'' of
                   Some w \<Rightarrow> (w, d)
                 | None \<Rightarrow> create d toUserId (Some cur) ''ECO'') of
             (toWallet, d1) \<Rightarrow>
               (let parsedAmount = parseFloat amt
                in if jlt (balance fromWallet) parsedAmount
                   then (Inl (Err 400 ''Insufficient balance.''), d1)
                   else (let walletTransferFeePercentage = orZero (feeSetting ev);
                             transferFeeAmount =
                               jdiv (jmul parsedAmount walletTransferFeePercentage) (Num 100);
                             targetReceiveAmount = jsub parsedAmount transferFeeAmount
                         in case sequelize_transaction
                                   (processInternalTransferBody ev fromWallet toWallet
                                      parsedAmount transferFeeAmount targetReceiveAmount
                                      fromUserId toUserId cur) d1 of
                              (Inl e, d2) \<Rightarrow> (Inl e, d2)
                            | (Inr tr, d2) \<Rightarrow>
                                (Inr \<lparr>transaction = tr,
                                      resBalance = map_option balance
                                        (findOne d2 fromUserId (Some cur) ''ECO''),
                                      resMethod = chain, resCurrency = cur\<rparr>, d2)))))"

section \<open>A worked example\<close>

text \<open>
  A fee of one percent, every transfer settled at once, eight decimal places, chains
  visited in key order. Alice holds 100 USD in a FIAT wallet and 110 USDT in an ECO
  wallet over two chains; Bob holds an empty ECO wallet.
\<close>

definition exampleEnv :: env where
  "exampleEnv =
     \<lparr>feeSetting = Some (Num 1),
      requiresPrivateLedgerUpdate = (\<lambda>transferType fromType toType. False),
      getCurrencyData = (\<lambda>ty cur. Some \<lparr>precision = 8\<rparr>),
      getSortedChainBalances = chainsOf,
      getWalletByUserIdAndCurrency = (\<lambda>d uid cur. (findOne d uid (Some cur) ''ECO'', d)),
      JSON_parse = (\<lambda>s. None),
      JSON_stringify = (\<lambda>a. ''{}'')\<rparr>"

definition chainOf :: "rat \<Rightarrow> chainInfo" where
  "chainOf b = \<lparr>chainAddress = None, network = None, chainBalance = Num b\<rparr>"

definition exampleDb :: db where
  "exampleDb =
     \<lparr>users = [''alice'', ''bob''],
      wallets =
        [\<lparr>wId = 1, userId = ''alice'', currency = Some ''USD'', wType = ''FIAT'',
           status = True, balance = Num 100, address = Null\<rparr>,
         \<lparr>wId = 2, userId = ''alice'', currency = Some ''USDT'', wType = ''ECO'',
           status = True, balance = Num 110,
           address = Object [(''chainA'', chainOf 30), (''chainB'', chainOf 80)]\<rparr>,
         \<lparr>wId = 3, userId = ''bob'', currency = Some ''USDT'', wType = ''ECO'',
           status = True, balance = Num 0, address = Null\<rparr>],
      privateLedger = [], transactions = [], adminProfits = []\<rparr>"

text \<open>
  The same state after Alice has moved 40 USDT into her ECO wallet from another of her
  wallets: such a transfer raises the aggregate balance only, so the wallet now holds 150
  while its chains still hold 110.
\<close>

definition toppedUpDb :: db where
  "toppedUpDb =
     exampleDb\<lparr>wallets :=
       [\<lparr>wId = 1, userId = ''alice'', currency = Some ''USD'', wType = ''FIAT'',
          status = True, balance = Num 100, address = Null\<rparr>,
        \<lparr>wId = 2, userId = ''alice'', currency = Some ''USDT'', wType = ''ECO'',
          status = True, balance = Num 150,
          address = Object [(''chainA'', chainOf 30), (''chainB'', chainOf 80)]\<rparr>,
        \<lparr>wId = 3, userId = ''bob'', currency = Some ''USDT'', wType = ''ECO'',
          status = True, balance = Num 0, address = Null\<rparr>]\<rparr>"

definition walletBody :: body where
  "walletBody =
     \<lparr>fromType = ''FIAT'', toType = ''SPOT'', amountIn = Numeric 100,
      transferType = ''wallet'', clientId = None, fromCurrency = ''USD'',
      toCurrency = Some ''USD''\<rparr>"

definition clientBody :: body where
  "clientBody =
     \<lparr>fromType = ''ECO'', toType = ''ECO'', amountIn = Numeric 100,
      transferType = ''client'', clientId = Some ''bob'', fromCurrency = ''USDT'',
      toCurrency = None\<rparr>"



text \<open>
  A wallet over two chains holding 0.03 and 1, and one whose only chain has an entry
  without a balance.
\<close>

definition dustWallet :: wallet where
  "dustWallet =
     \<lparr>wId = 2, userId = ''alice'', currency = Some ''USDT'', wType = ''ECO'',
      status = True, balance = Num 110,
      address = Object [(''chainA'', chainOf (fl (3 / 100))), (''chainB'', chainOf 1)]\<rparr>"

definition blankWallet :: wallet where
  "blankWallet =
     \<lparr>wId = 2, userId = ''alice'', currency = Some ''USDT'', wType = ''ECO'',
      status = True, balance = Num 110,
      address = Object [(''chainA'', \<lparr>chainAddress = None, network = None,
                                      chainBalance = NaN\<rparr>)]\<rparr>"

section \<open>Rounding to binary64\<close>

lemma bitLength_le: "n < 2 ^ k \<Longrightarrow> bitLength n \<le> k"
proof (induction k arbitrary: n)
  case 0
  then show ?case by (simp add: bitLength.simps)
next
  case (Suc k)
  show ?case
  proof (cases "n = 0")
    case True
    then show ?thesis by (simp add: bitLength.simps)
  next
    case False
    from Suc.prems have "n div 2 < 2 ^ k" by simp
    from Suc.IH[OF this] False show ?thesis
      by (subst bitLength.simps) simp
  qed
qed

lemma roundEven_of_int: "roundEven (of_int m) = m"
  by (simp add: roundEven_def)

lemma pow2_pos: "0 < pow2 e"
  by (simp add: pow2_def)

lemma roundEven_nonneg: "0 \<le> y \<Longrightarrow> 0 \<le> roundEven y"
  by (auto simp: roundEven_def Let_def)

text \<open>Rounding keeps a value that is not negative from becoming negative.\<close>

lemma fl_nonneg: "0 \<le> x \<Longrightarrow> 0 \<le> fl x"
  by (simp add: fl_def Let_def roundEven_nonneg pow2_pos less_imp_le)

text \<open>The integers below \<open>2^53\<close> in magnitude are binary64 values.\<close>

lemma fl_of_int:
  assumes "\<bar>n\<bar> < 2 ^ 53"
  shows "fl (of_int n) = of_int n"
proof (cases "n = 0")
  case True
  then show ?thesis by (simp add: fl_def)
next
  case False
  define k where "k = bitLength (nat \<bar>n\<bar>)"
  from assms have "nat \<bar>n\<bar> < 2 ^ 53" by (simp add: nat_less_iff)
  hence k: "k \<le> 53" unfolding k_def by (rule bitLength_le)
  from False have one: "(1::rat) \<le> \<bar>of_int n\<bar>"
  proof -
    from False have "1 \<le> \<bar>n\<bar>" by simp
    hence "(1::rat) \<le> of_int \<bar>n\<bar>" by (simp only: of_int_1_le_iff)
    thus ?thesis by simp
  qed
  have fa: "\<lfloor>\<bar>(of_int n)::rat\<bar>\<rfloor> = \<bar>n\<bar>"
    by (metis floor_of_int of_int_abs)
  have b: "binade (of_int n) - 52 = - int (53 - k)"
    using one k by (simp add: binade_def fa k_def)
  have q: "pow2 (binade (of_int n) - 52) = 1 / 2 ^ (53 - k)"
  proof -
    have "nat (53 - int k) = 53 - k" by arith
    thus ?thesis unfolding b by (simp add: pow2_def)
  qed
  have r: "roundEven (of_int n * 2 ^ (53 - k)) = n * 2 ^ (53 - k)"
    using roundEven_of_int[of "n * 2 ^ (53 - k)"] by simp
  show ?thesis
    using False by (simp add: fl_def Let_def q r)
qed

lemma fl_numeral [simp]:
  "numeral w < (9007199254740992::int) \<Longrightarrow> fl (numeral w) = numeral w"
  using fl_of_int[of "numeral w"] by simp

lemma fl_neg_numeral [simp]:
  "numeral w < (9007199254740992::int) \<Longrightarrow> fl (- numeral w) = - numeral w"
  using fl_of_int[of "- numeral w"] by simp

lemma fl_0 [simp]: "fl 0 = 0"
  by (simp add: fl_def)

lemma fl_1 [simp]: "fl 1 = 1"
  using fl_of_int[of 1] by simp

lemma bitLength_pos: "n \<noteq> 0 \<Longrightarrow> 0 < bitLength n"
  by (subst bitLength.simps) simp

lemma bitLength_bounds:
  "n \<noteq> 0 \<Longrightarrow> 2 ^ (bitLength n - 1) \<le> n \<and> n < 2 ^ bitLength n"
proof (induction n rule: bitLength.induct)
  case (1 n)
  show ?case
  proof (cases "n div 2 = 0")
    case True
    with 1(2) have "n = 1" by (simp add: div_eq_0_iff) 
    then show ?thesis by (simp add: bitLength.simps)
  next
    case False
    from 1(1)[OF 1(2) False] have
      lo: "2 ^ (bitLength (n div 2) - 1) \<le> n div 2" and hi: "n div 2 < 2 ^ bitLength (n div 2)"
      by simp_all
    have k: "0 < bitLength (n div 2)" using False by (rule bitLength_pos)
    have b: "bitLength n = Suc (bitLength (n div 2))"
      using 1(2) by (subst bitLength.simps) simp
    have "(2::nat) ^ bitLength (n div 2) = 2 * 2 ^ (bitLength (n div 2) - 1)"
      using k by (cases "bitLength (n div 2)") simp_all
    also have "\<dots> \<le> 2 * (n div 2)" using lo by simp
    also have "\<dots> \<le> n" by simp
    finally have l: "2 ^ bitLength (n div 2) \<le> n" .
    have "n < 2 * (n div 2) + 2" by presburger
    also have "\<dots> \<le> 2 * 2 ^ bitLength (n div 2)" using hi by simp
    finally have h: "n < 2 ^ Suc (bitLength (n div 2))" by simp
    from l h b show ?thesis by simp
  qed
qed

text \<open>The exponent is that of the binade of the value.\<close>

lemma binade_bounds:
  assumes "x \<noteq> 0"
  shows "pow2 (binade x) \<le> \<bar>x\<bar> \<and> \<bar>x\<bar> < pow2 (binade x + 1)"
proof (cases "1 \<le> \<bar>x\<bar>")
  case True
  define n where "n = nat \<lfloor>\<bar>x\<bar>\<rfloor>"
  from True have fl1: "1 \<le> \<lfloor>\<bar>x\<bar>\<rfloor>" by simp
  hence n0: "n \<noteq> 0" unfolding n_def by simp
  have "of_int \<lfloor>\<bar>x\<bar>\<rfloor> \<le> \<bar>x\<bar>" "\<bar>x\<bar> < of_int \<lfloor>\<bar>x\<bar>\<rfloor> + 1" by linarith+
  hence nx: "of_nat n \<le> \<bar>x\<bar>" "\<bar>x\<bar> < of_nat n + 1"
    using fl1 unfolding n_def by (simp_all add: of_nat_nat)
  note bb = bitLength_bounds[OF n0]
  have k: "0 < bitLength n" using n0 by (rule bitLength_pos)
  have e: "binade x = int (bitLength n) - 1" using True by (simp add: binade_def n_def)
  have p1: "pow2 (binade x) = 2 ^ (bitLength n - 1)"
    unfolding e using k by (simp add: pow2_def nat_diff_distrib of_nat_diff)
  have p2: "pow2 (binade x + 1) = 2 ^ bitLength n"
    unfolding e by (simp add: pow2_def)
  have "(2::rat) ^ (bitLength n - 1) \<le> of_nat n"
    using bb[THEN conjunct1] by (metis of_nat_le_iff of_nat_numeral of_nat_power)
  from this nx(1) have a: "pow2 (binade x) \<le> \<bar>x\<bar>" unfolding p1 by (rule order_trans)
  have "n + 1 \<le> 2 ^ bitLength n" using bb[THEN conjunct2] by simp
  hence "(of_nat (n + 1) :: rat) \<le> of_nat (2 ^ bitLength n)" by (simp only: of_nat_le_iff)
  hence "(of_nat n + 1 :: rat) \<le> 2 ^ bitLength n" by simp
  with nx(2) have b: "\<bar>x\<bar> < pow2 (binade x + 1)" unfolding p2 by (rule less_le_trans)
  from a b show ?thesis ..
next
  case False
  define y where "y = 1 / \<bar>x\<bar>"
  from assms False have y1: "1 < y" unfolding y_def by simp
  define m where "m = nat (\<lceil>y\<rceil> - 1)"
  from y1 have c2: "2 \<le> \<lceil>y\<rceil>" by (simp add: le_ceiling_iff)
  hence m0: "m \<noteq> 0" unfolding m_def by simp
  have my: "of_nat m < y" "y \<le> of_nat m + 1"
  proof -
    have "of_int (\<lceil>y\<rceil> - 1) < y" by (simp add: ceiling_correct)  
    with c2 show "of_nat m < y" unfolding m_def by (simp add: of_nat_nat)
    have "y \<le> of_int \<lceil>y\<rceil>" by simp
    with c2 show "y \<le> of_nat m + 1" unfolding m_def by (simp add: of_nat_nat)
  qed
  note bb = bitLength_bounds[OF m0]
  have k: "0 < bitLength m" using m0 by (rule bitLength_pos)
  have e: "binade x = - int (bitLength m)" using False by (simp add: binade_def m_def y_def)
  have p1: "pow2 (binade x) = 1 / 2 ^ bitLength m"
    unfolding e using k by (simp add: pow2_def)
  have p2: "pow2 (binade x + 1) = 1 / 2 ^ (bitLength m - 1)"
  proof (cases "bitLength m = 1")
    case True
    then show ?thesis unfolding e by (simp add: pow2_def)
  next
    case False
    with k have "1 < bitLength m" by simp
    hence "nat (int (bitLength m) - 1) = bitLength m - 1" by simp
    with \<open>1 < bitLength m\<close> show ?thesis unfolding e by (simp add: pow2_def)
  qed
  have xpos: "0 < \<bar>x\<bar>" using assms by simp
  have "m + 1 \<le> 2 ^ bitLength m" using bb[THEN conjunct2] by simp
  hence "(of_nat (m + 1) :: rat) \<le> of_nat (2 ^ bitLength m)" by (simp only: of_nat_le_iff)
  hence "(of_nat m + 1 :: rat) \<le> 2 ^ bitLength m" by simp
  with my(2) have "y \<le> 2 ^ bitLength m" by (rule order_trans)
  hence "1 \<le> 2 ^ bitLength m * \<bar>x\<bar>"
    unfolding y_def using xpos by (simp add: field_simps)
  hence a: "pow2 (binade x) \<le> \<bar>x\<bar>" unfolding p1 by (simp add: field_simps)
  have "(2::rat) ^ (bitLength m - 1) \<le> of_nat m"
    using bb[THEN conjunct1] by (metis of_nat_le_iff of_nat_numeral of_nat_power)
  from this my(1) have "2 ^ (bitLength m - 1) < y" by (rule le_less_trans)
  hence "2 ^ (bitLength m - 1) * \<bar>x\<bar> < 1"
    unfolding y_def using xpos by (simp add: field_simps)
  hence b: "\<bar>x\<bar> < pow2 (binade x + 1)" unfolding p2 by (simp add: field_simps)
  from a b show ?thesis ..
qed

lemma roundEven_near: "\<bar>of_int (roundEven y) - y\<bar> \<le> 1 / 2"
proof -
  have "of_int \<lfloor>y\<rfloor> \<le> y" "y < of_int \<lfloor>y\<rfloor> + 1" by linarith+
  then show ?thesis
    by (auto simp: roundEven_def Let_def abs_le_iff)
qed

text \<open>Rounding moves a value by half a unit in the last place at most.\<close>

lemma fl_near: "\<bar>fl x - x\<bar> \<le> pow2 (binade x - 52) / 2"
proof (cases "x = 0")
  case True
  then show ?thesis using pow2_pos[of "binade 0 - 52"] by (simp add: fl_def)
next
  case False
  let ?q = "pow2 (binade x - 52)"
  have q: "0 < ?q" by (rule pow2_pos)
  have "fl x - x = (of_int (roundEven (x / ?q)) - x / ?q) * ?q"
    using False q by (simp add: fl_def Let_def field_simps)
  hence "\<bar>fl x - x\<bar> = \<bar>of_int (roundEven (x / ?q)) - x / ?q\<bar> * ?q"
    using q by (simp add: abs_mult)
  also have "\<dots> \<le> (1 / 2) * ?q"
    using roundEven_near[of "x / ?q"] q by (intro mult_right_mono) simp_all
  finally show ?thesis by simp
qed

text \<open>The sum \<open>0.1 + 0.2\<close> is 0.30000000000000004, which is not the number 0.3.\<close>

lemma binary64_example:
  "fl (fl (1 / 10) + fl (2 / 10)) = 1351079888211149 / 4503599627370496"
  "fl (3 / 10) = 5404319552844595 / 18014398509481984"
  by code_simp+

section \<open>What \<open>parseAddresses\<close> returns\<close>




section \<open>What each step leaves unchanged\<close>

lemma walletUpdate_frame [simp]:
  "committed (walletUpdate i f s) = committed s"
  "transactions (working (walletUpdate i f s)) = transactions (working s)"
  "adminProfits (working (walletUpdate i f s)) = adminProfits (working s)"
  "privateLedger (working (walletUpdate i f s)) = privateLedger (working s)"
  "users (working (walletUpdate i f s)) = users (working s)"
  "wallets (working (walletUpdate i f s)) =
     map (\<lambda>w. if wId w = i then f w else w) (wallets (working s))"
  by (simp_all add: walletUpdate_def)

lemma updatePrivateLedger_frame [simp]:
  "wallets (working (updatePrivateLedger w i c ch df t s)) = wallets (working s)"
  "transactions (working (updatePrivateLedger w i c ch df t s)) = transactions (working s)"
  "adminProfits (working (updatePrivateLedger w i c ch df t s)) = adminProfits (working s)"
  "users (working (updatePrivateLedger w i c ch df t s)) = users (working s)"
  "wallets (committed (updatePrivateLedger w i c ch df t s)) = wallets (committed s)"
  "transactions (committed (updatePrivateLedger w i c ch df t s)) = transactions (committed s)"
  "adminProfits (committed (updatePrivateLedger w i c ch df t s)) = adminProfits (committed s)"
  "users (committed (updatePrivateLedger w i c ch df t s)) = users (committed s)"
  by (simp_all add: updatePrivateLedger_def Let_def)

lemma ledgerWrites_frame [simp]:
  "wallets (working (ledgerWrites w c t ds s)) = wallets (working s)"
  "transactions (working (ledgerWrites w c t ds s)) = transactions (working s)"
  "adminProfits (working (ledgerWrites w c t ds s)) = adminProfits (working s)"
  "wallets (committed (ledgerWrites w c t ds s)) = wallets (committed s)"
  "transactions (committed (ledgerWrites w c t ds s)) = transactions (committed s)"
  "adminProfits (committed (ledgerWrites w c t ds s)) = adminProfits (committed s)"
  unfolding ledgerWrites_def
  by (induction ds arbitrary: s; simp add: split_def)+

lemma clientLedgerWrites_frame [simp]:
  "wallets (working (clientLedgerWrites a b c ds s)) = wallets (working s)"
  "transactions (working (clientLedgerWrites a b c ds s)) = transactions (working s)"
  "adminProfits (working (clientLedgerWrites a b c ds s)) = adminProfits (working s)"
  "committed (clientLedgerWrites a b c ds s) = committed s"
  unfolding clientLedgerWrites_def
  by (induction ds arbitrary: s; simp add: split_def updatePrivateLedger_def Let_def)+

lemma updateWalletBalances_frame [simp]:
  "committed (updateWalletBalances fw tw a b p s) = committed s"
  "transactions (working (updateWalletBalances fw tw a b p s)) = transactions (working s)"
  "adminProfits (working (updateWalletBalances fw tw a b p s)) = adminProfits (working s)"
  "privateLedger (working (updateWalletBalances fw tw a b p s)) = privateLedger (working s)"
  by (simp_all add: updateWalletBalances_def Let_def)

lemma deductFromEcoWallet_frame:
  assumes "deductFromEcoWallet ev w a c s = (r, s')"
  shows "transactions (working s') = transactions (working s)"
    and "adminProfits (working s') = adminProfits (working s)"
  using assms
  by (auto simp: deductFromEcoWallet_def Let_def split: prod.splits if_splits)

lemma addToEcoWallet_frame:
  assumes "addToEcoWallet ev w ds c s = (r, s')"
  shows "transactions (working s') = transactions (working s)"
    and "adminProfits (working s') = adminProfits (working s)"
  using assms
  by (auto simp: addToEcoWallet_def Let_def split: if_splits)

lemma handleEcoClientBalanceTransfer_frame:
  assumes "handleEcoClientBalanceTransfer ev fw tw a fc cd s = (r, s')"
  shows "transactions (working s') = transactions (working s)"
    and "adminProfits (working s') = adminProfits (working s)"
  using assms
  by (auto simp: handleEcoClientBalanceTransfer_def Let_def split: prod.splits if_splits)

lemma handleNonClientTransfer_frame:
  assumes "handleNonClientTransfer ev fw tw a fc tg cd s = (r, s')"
  shows "transactions (working s') = transactions (working s)"
    and "adminProfits (working s') = adminProfits (working s)"
proof -
  have "transactions (working s') = transactions (working s) \<and>
        adminProfits (working s') = adminProfits (working s)"
  proof (cases "wType fw = ''ECO'' \<and> wType tw = ''ECO''")
    case False
    with assms show ?thesis by (auto simp: handleNonClientTransfer_def)
  next
    case True
    obtain r1 s1 where d: "deductFromEcoWallet ev fw a fc s = (r1, s1)"
      by (cases "deductFromEcoWallet ev fw a fc s")
    note f1 = deductFromEcoWallet_frame[OF d]
    show ?thesis
    proof (cases r1)
      case (Inl e)
      with assms True d f1 show ?thesis by (auto simp: handleNonClientTransfer_def)
    next
      case (Inr ds)
      obtain r2 s2 where ad: "addToEcoWallet ev tw ds fc s1 = (r2, s2)"
        by (cases "addToEcoWallet ev tw ds fc s1")
      note f2 = addToEcoWallet_frame[OF ad]
      from assms True d Inr ad f1 f2 show ?thesis
        by (cases r2) (auto simp: handleNonClientTransfer_def)
    qed
  qed
  thus "transactions (working s') = transactions (working s)"
    and "adminProfits (working s') = adminProfits (working s)" by simp_all
qed

lemma handleCompleteTransfer_frame:
  assumes "handleCompleteTransfer ev fw tw a tg tt ft fc cd s = (r, s')"
  shows "transactions (working s') = transactions (working s)"
    and "adminProfits (working s') = adminProfits (working s)"
  using assms handleEcoClientBalanceTransfer_frame[of ev fw tw a fc cd s r s']
    handleNonClientTransfer_frame[of ev fw tw a fc tg cd s r s']
  by (auto simp: handleCompleteTransfer_def split: if_splits)

lemma handlePendingTransfer_frame [simp]:
  "transactions (working (handlePendingTransfer fw tw a tg st cd s)) = transactions (working s)"
  "adminProfits (working (handlePendingTransfer fw tw a tg st cd s)) = adminProfits (working s)"
  "committed (handlePendingTransfer fw tw a tg st cd s) = committed s"
  by (simp_all add: handlePendingTransfer_def Let_def)


lemma recordTransfers_result:
  assumes "recordTransfers uid toUid fw tw amt feeAmt tgt fc tc ft tt dO dI st s = ((out, inc), s')"
  shows "out = \<lparr>txId = length (transactions (working s)), txUserId = Some uid,
                 txWalletId = wId fw, txType = ''OUTGOING_TRANSFER'', amount = amt, fee = feeAmt,
                 txFromCurrency = fc, txToCurrency = tc, fromWalletId = wId fw,
                 toWalletId = wId tw, description = dO, txStatus = st\<rparr>"
    and "inc = \<lparr>txId = Suc (length (transactions (working s))), txUserId = toUid,
                 txWalletId = wId tw, txType = ''INCOMING_TRANSFER'', amount = tgt, fee = Num 0,
                 txFromCurrency = fc, txToCurrency = tc, fromWalletId = wId fw,
                 toWalletId = wId tw, description = dI, txStatus = st\<rparr>"
    and "transactions (working s') = transactions (working s) @ [out, inc]"
    and "adminProfits (working s') = adminProfits (working s) @
           (if jgt feeAmt (Num 0)
            then [\<lparr>profitUserId = uid, profitAmount = feeAmt, profitCurrency = fc,
                    profitFromType = ft, profitToType = tt, transactionId = txId out\<rparr>]
            else [])"
    and "wallets (working s') = wallets (working s)"
    and "privateLedger (working s') = privateLedger (working s)"
    and "committed s' = committed s"
  using assms
  by (auto simp: recordTransfers_def createTransferTransaction_def recordAdminProfit_def Let_def
      split: if_splits)

lemma performTransactionBody_records:
  assumes "performTransactionBody ev tt fw tw amt feeAmt tgt fc tc uid cid ft tty cd s
             = (Inr (out, inc), s')"
  shows "recordTransfers uid (if tt = ''client'' then cid else Some uid) fw tw amt feeAmt tgt
           fc tc ft tty (''Transfer to '' @ tty @ '' wallet'') (''Transfer from '' @ ft @ '' wallet'')
           (if requiresPrivateLedgerUpdate ev tt ft tty then ''PENDING'' else ''COMPLETED'')
           (snd (if \<not> requiresPrivateLedgerUpdate ev tt ft tty
             then handleCompleteTransfer ev fw tw amt tgt tt ft fc cd s
             else (Inr (), handlePendingTransfer fw tw amt tgt ''PENDING'' cd s)))
         = ((out, inc), s')"
  using assms
  by (auto simp: performTransactionBody_def Let_def split: prod.splits sum.splits if_splits)

lemma performTransactionBody_transactions:
  assumes "performTransactionBody ev tt fw tw amt feeAmt tgt fc tc uid cid ft tty cd s
             = (Inr (out, inc), s')"
  shows "transactions (working s') = transactions (working s) @ [out, inc]"
    and "adminProfits (working s') = adminProfits (working s) @
           (if jgt feeAmt (Num 0)
            then [\<lparr>profitUserId = uid, profitAmount = feeAmt, profitCurrency = fc,
                    profitFromType = ft, profitToType = tty, transactionId = txId out\<rparr>]
            else [])"
proof -
  let ?m = "(if \<not> requiresPrivateLedgerUpdate ev tt ft tty
             then handleCompleteTransfer ev fw tw amt tgt tt ft fc cd s
             else (Inr (), handlePendingTransfer fw tw amt tgt ''PENDING'' cd s))"
  have fr: "transactions (working (snd ?m)) = transactions (working s)"
           "adminProfits (working (snd ?m)) = adminProfits (working s)"
    using handleCompleteTransfer_frame[of ev fw tw amt tgt tt ft fc cd s "fst (handleCompleteTransfer ev fw tw amt tgt tt ft fc cd s)" "snd (handleCompleteTransfer ev fw tw amt tgt tt ft fc cd s)"]
    by (auto split: if_splits)
  note r = recordTransfers_result[OF performTransactionBody_records[OF assms]]
  show "transactions (working s') = transactions (working s) @ [out, inc]"
    using r(3) fr by simp
  show "adminProfits (working s') = adminProfits (working s) @
           (if jgt feeAmt (Num 0)
            then [\<lparr>profitUserId = uid, profitAmount = feeAmt, profitCurrency = fc,
                    profitFromType = ft, profitToType = tty, transactionId = txId out\<rparr>]
            else [])"
    using r(4) fr by simp
qed


lemma performTransaction_success:
  assumes "performTransaction ev tt fw tw amt fc tc uid cid ft tty cd d = (Inr (out, inc), d')"
  shows "\<exists>s'. performTransactionBody ev tt fw tw amt (calculateTransferFee amt (orZero (feeSetting ev)))
            (jsub amt (calculateTransferFee amt (orZero (feeSetting ev)))) fc tc uid cid ft tty cd
            \<lparr>committed = d, working = d\<rparr> = (Inr (out, inc), s') \<and> d' = working s'"
    and "\<not> jlt (balance fw) amt"
  using assms
  by (auto simp: performTransaction_def sequelize_transaction_def Let_def
      split: if_splits prod.splits sum.splits)

lemma performTransaction_records:
  assumes "performTransaction ev tt fw tw amt fc tc uid cid ft tty cd d = (Inr (out, inc), d')"
  shows "out = \<lparr>txId = length (transactions d), txUserId = Some uid,
                 txWalletId = wId fw, txType = ''OUTGOING_TRANSFER'', amount = amt,
                 fee = calculateTransferFee amt (orZero (feeSetting ev)),
                 txFromCurrency = fc, txToCurrency = tc, fromWalletId = wId fw,
                 toWalletId = wId tw, description = ''Transfer to '' @ tty @ '' wallet'',
                 txStatus = (if requiresPrivateLedgerUpdate ev tt ft tty then ''PENDING''
                             else ''COMPLETED'')\<rparr>"
    and "inc = \<lparr>txId = Suc (length (transactions d)),
                 txUserId = (if tt = ''client'' then cid else Some uid),
                 txWalletId = wId tw, txType = ''INCOMING_TRANSFER'',
                 amount = jsub amt (calculateTransferFee amt (orZero (feeSetting ev))),
                 fee = Num 0,
                 txFromCurrency = fc, txToCurrency = tc, fromWalletId = wId fw,
                 toWalletId = wId tw, description = ''Transfer from '' @ ft @ '' wallet'',
                 txStatus = (if requiresPrivateLedgerUpdate ev tt ft tty then ''PENDING''
                             else ''COMPLETED'')\<rparr>"
    and "transactions d' = transactions d @ [out, inc]"
    and "adminProfits d' = adminProfits d @
           (if jgt (calculateTransferFee amt (orZero (feeSetting ev))) (Num 0)
            then [\<lparr>profitUserId = uid,
                    profitAmount = calculateTransferFee amt (orZero (feeSetting ev)),
                    profitCurrency = fc, profitFromType = ft, profitToType = tty,
                    transactionId = txId out\<rparr>]
            else [])"
proof -
  let ?fee = "calculateTransferFee amt (orZero (feeSetting ev))"
  let ?s0 = "\<lparr>committed = d, working = d\<rparr>"
  from performTransaction_success(1)[OF assms] obtain s' where
    b: "performTransactionBody ev tt fw tw amt ?fee (jsub amt ?fee) fc tc uid cid ft tty cd ?s0
          = (Inr (out, inc), s')" and d': "d' = working s'"
    by blast
  let ?m = "snd (if \<not> requiresPrivateLedgerUpdate ev tt ft tty
             then handleCompleteTransfer ev fw tw amt (jsub amt ?fee) tt ft fc cd ?s0
             else (Inr (), handlePendingTransfer fw tw amt (jsub amt ?fee) ''PENDING'' cd ?s0))"
  have fr: "transactions (working ?m) = transactions d"
    using handleCompleteTransfer_frame(1)[of ev fw tw amt "jsub amt ?fee" tt ft fc cd ?s0
        "fst (handleCompleteTransfer ev fw tw amt (jsub amt ?fee) tt ft fc cd ?s0)"
        "snd (handleCompleteTransfer ev fw tw amt (jsub amt ?fee) tt ft fc cd ?s0)"]
    by (auto split: if_splits)
  note r = recordTransfers_result[OF performTransactionBody_records[OF b]]
  show "out = \<lparr>txId = length (transactions d), txUserId = Some uid,
                 txWalletId = wId fw, txType = ''OUTGOING_TRANSFER'', amount = amt,
                 fee = ?fee,
                 txFromCurrency = fc, txToCurrency = tc, fromWalletId = wId fw,
                 toWalletId = wId tw, description = ''Transfer to '' @ tty @ '' wallet'',
                 txStatus = (if requiresPrivateLedgerUpdate ev tt ft tty then ''PENDING''
                             else ''COMPLETED'')\<rparr>"
    using r(1) fr by simp
  show "inc = \<lparr>txId = Suc (length (transactions d)),
                 txUserId = (if tt = ''client'' then cid else Some uid),
                 txWalletId = wId tw, txType = ''INCOMING_TRANSFER'',
                 amount = jsub amt ?fee,
                 fee = Num 0,
                 txFromCurrency = fc, txToCurrency = tc, fromWalletId = wId fw,
                 toWalletId = wId tw, description = ''Transfer from '' @ ft @ '' wallet'',
                 txStatus = (if requiresPrivateLedgerUpdate ev tt ft tty then ''PENDING''
                             else ''COMPLETED'')\<rparr>"
    using r(2) fr by simp
  show "transactions d' = transactions d @ [out, inc]"
    using performTransactionBody_transactions(1)[OF b] d' by simp
  show "adminProfits d' = adminProfits d @
           (if jgt ?fee (Num 0)
            then [\<lparr>profitUserId = uid, profitAmount = ?fee,
                    profitCurrency = fc, profitFromType = ft, profitToType = tty,
                    transactionId = txId out\<rparr>]
            else [])"
    using performTransactionBody_transactions(2)[OF b] d' by simp
qed

lemma createTransfer_success:
  assumes "createTransfer ev d user b = (Inr r, d')"
  shows "\<exists>uid fw tw tu d1 cd.
           resolveWallets ev d user b = (Inr (uid, fw, tw, tu), d1) \<and>
           getCurrencyData ev (fromType b) (Some (fromCurrency b)) = Some cd \<and>
           \<not> jlt (balance fw) (parseFloat (amountIn b)) \<and>
           performTransaction ev (transferType b) fw tw (parseFloat (amountIn b)) (fromCurrency b)
             (toCurrency b) uid tu (fromType b) (toType b) cd d1
             = (Inr (fromTransfer r, toTransfer r), d')"
  using assms
  by (auto simp: createTransfer_def Let_def
      split: prod.splits sum.splits if_splits option.splits)


lemma create_frame [simp]:
  "transactions (snd (create d u c t)) = transactions d"
  "adminProfits (snd (create d u c t)) = adminProfits d"
  "privateLedger (snd (create d u c t)) = privateLedger d"
  "users (snd (create d u c t)) = users d"
  "wallets (snd (create d u c t)) = wallets d @ [fst (create d u c t)]"
  by (simp_all add: create_def Let_def)

lemma processInternalTransferBody_pre:
  assumes "processInternalTransferBody ev fw tw amt feeAmt tgt fu tu cur s = (Inr (out, inc), s')"
  shows "\<exists>s1. transactions (working s1) = transactions (working s) \<and>
              adminProfits (working s1) = adminProfits (working s) \<and>
              recordTransfers fu (Some tu) fw tw amt feeAmt tgt cur (Some cur) ''ECO'' ''ECO''
                (''Internal transfer to user '' @ tu) (''Internal transfer from user '' @ fu)
                ''COMPLETED'' s1 = ((out, inc), s')"
proof (cases "wType fw = ''ECO'' \<and> wType tw = ''ECO''")
  case False
  with assms have "recordTransfers fu (Some tu) fw tw amt feeAmt tgt cur (Some cur) ''ECO'' ''ECO''
                (''Internal transfer to user '' @ tu) (''Internal transfer from user '' @ fu)
                ''COMPLETED'' (updateWalletBalances fw tw amt tgt 8 s) = ((out, inc), s')"
    by (auto simp: processInternalTransferBody_def split: prod.splits)
  then show ?thesis
    by (intro exI[of _ "updateWalletBalances fw tw amt tgt 8 s"]) simp
next
  case True
  obtain r1 s1 where d: "deductFromEcoWallet ev fw amt cur s = (r1, s1)"
    by (cases "deductFromEcoWallet ev fw amt cur s")
  note f = deductFromEcoWallet_frame[OF d]
  from assms True d obtain ds where r1: "r1 = Inr ds"
    by (cases r1) (auto simp: processInternalTransferBody_def)
  obtain r2 s2 where ad: "addToEcoWallet ev tw ds cur s1 = (r2, s2)"
    by (cases "addToEcoWallet ev tw ds cur s1")
  note f2 = addToEcoWallet_frame[OF ad]
  from assms True d r1 ad obtain u where r2: "r2 = Inr u"
    by (cases r2) (auto simp: processInternalTransferBody_def)
  from assms True d r1 ad r2 obtain cd where
    cd: "getCurrencyData ev (wType fw) (currency fw) = Some cd"
    by (cases "getCurrencyData ev (wType fw) (currency fw)")
       (auto simp: processInternalTransferBody_def Let_def)
  from assms True d r1 ad r2 cd have
    "recordTransfers fu (Some tu) fw tw amt feeAmt tgt cur (Some cur) ''ECO'' ''ECO''
                (''Internal transfer to user '' @ tu) (''Internal transfer from user '' @ fu)
                ''COMPLETED''
                (updateWalletBalances fw tw amt tgt (precision cd) s2)
       = ((out, inc), s')"
    by (auto simp: processInternalTransferBody_def Let_def split: prod.splits)
  then show ?thesis using f f2
    by (intro exI[of _ "updateWalletBalances fw tw amt tgt (precision cd) s2"]) simp
qed

lemma processInternalTransferBody_records:
  assumes "processInternalTransferBody ev fw tw amt feeAmt tgt fu tu cur s = (Inr (out, inc), s')"
  shows "out = \<lparr>txId = length (transactions (working s)), txUserId = Some fu,
                 txWalletId = wId fw, txType = ''OUTGOING_TRANSFER'', amount = amt, fee = feeAmt,
                 txFromCurrency = cur, txToCurrency = Some cur, fromWalletId = wId fw,
                 toWalletId = wId tw, description = ''Internal transfer to user '' @ tu,
                 txStatus = ''COMPLETED''\<rparr>"
    and "inc = \<lparr>txId = Suc (length (transactions (working s))), txUserId = Some tu,
                 txWalletId = wId tw, txType = ''INCOMING_TRANSFER'', amount = tgt, fee = Num 0,
                 txFromCurrency = cur, txToCurrency = Some cur, fromWalletId = wId fw,
                 toWalletId = wId tw, description = ''Internal transfer from user '' @ fu,
                 txStatus = ''COMPLETED''\<rparr>"
    and "transactions (working s') = transactions (working s) @ [out, inc]"
    and "adminProfits (working s') = adminProfits (working s) @
           (if jgt feeAmt (Num 0)
            then [\<lparr>profitUserId = fu, profitAmount = feeAmt, profitCurrency = cur,
                    profitFromType = ''ECO'', profitToType = ''ECO'', transactionId = txId out\<rparr>]
            else [])"
proof -
  from processInternalTransferBody_pre[OF assms] obtain s1 where
    t: "transactions (working s1) = transactions (working s)" and
    a: "adminProfits (working s1) = adminProfits (working s)" and
    r: "recordTransfers fu (Some tu) fw tw amt feeAmt tgt cur (Some cur) ''ECO'' ''ECO''
                (''Internal transfer to user '' @ tu) (''Internal transfer from user '' @ fu)
                ''COMPLETED'' s1 = ((out, inc), s')"
    by blast
  note rr = recordTransfers_result[OF r]
  show "out = \<lparr>txId = length (transactions (working s)), txUserId = Some fu,
                 txWalletId = wId fw, txType = ''OUTGOING_TRANSFER'', amount = amt, fee = feeAmt,
                 txFromCurrency = cur, txToCurrency = Some cur, fromWalletId = wId fw,
                 toWalletId = wId tw, description = ''Internal transfer to user '' @ tu,
                 txStatus = ''COMPLETED''\<rparr>"
    using rr(1) t by simp
  show "inc = \<lparr>txId = Suc (length (transactions (working s))), txUserId = Some tu,
                 txWalletId = wId tw, txType = ''INCOMING_TRANSFER'', amount = tgt, fee = Num 0,
                 txFromCurrency = cur, txToCurrency = Some cur, fromWalletId = wId fw,
                 toWalletId = wId tw, description = ''Internal transfer from user '' @ fu,
                 txStatus = ''COMPLETED''\<rparr>"
    using rr(2) t by simp
  show "transactions (working s') = transactions (working s) @ [out, inc]"
    using rr(3) t by simp
  show "adminProfits (working s') = adminProfits (working s) @
           (if jgt feeAmt (Num 0)
            then [\<lparr>profitUserId = fu, profitAmount = feeAmt, profitCurrency = cur,
                    profitFromType = ''ECO'', profitToType = ''ECO'', transactionId = txId out\<rparr>]
            else [])"
    using rr(4) a by simp
qed

lemma processInternalTransfer_success:
  assumes "processInternalTransfer ev d fu tu cur chain a = (Inr r, d')"
  obtains fw tw d1 s' where
    "findOne d fu (Some cur) ''ECO'' = Some fw"
    "transactions d1 = transactions d" "adminProfits d1 = adminProfits d"
    "\<not> jlt (balance fw) (parseFloat a)"
    "processInternalTransferBody ev fw tw (parseFloat a)
       (jdiv (jmul (parseFloat a) (orZero (feeSetting ev))) (Num 100))
       (jsub (parseFloat a) (jdiv (jmul (parseFloat a) (orZero (feeSetting ev))) (Num 100)))
       fu tu cur \<lparr>committed = d1, working = d1\<rparr> = (Inr (transaction r), s')"
    "d' = working s'"
proof -
  from assms obtain fw where fw: "findOne d fu (Some cur) ''ECO'' = Some fw"
    by (auto simp: processInternalTransfer_def split: option.splits)
  obtain tw d1 where tw: "(case findOne d tu (Some cur) ''ECO'' of
                   Some w \<Rightarrow> (w, d)
                 | None \<Rightarrow> create d tu (Some cur) ''ECO'') = (tw, d1)"
    by (cases "(case findOne d tu (Some cur) ''ECO'' of
                   Some w \<Rightarrow> (w, d)
                 | None \<Rightarrow> create d tu (Some cur) ''ECO'')")
  have fr: "transactions d1 = transactions d" "adminProfits d1 = adminProfits d"
    using tw by (auto simp: create_def Let_def split: option.splits)
  let ?body = "processInternalTransferBody ev fw tw (parseFloat a)
       (jdiv (jmul (parseFloat a) (orZero (feeSetting ev))) (Num 100))
       (jsub (parseFloat a) (jdiv (jmul (parseFloat a) (orZero (feeSetting ev))) (Num 100)))
       fu tu cur \<lparr>committed = d1, working = d1\<rparr>"
  have nl: "\<not> jlt (balance fw) (parseFloat a)"
    using assms fw tw by (auto simp: processInternalTransfer_def Let_def split: if_splits)
  obtain rb s' where b: "?body = (rb, s')" by (cases ?body)
  from assms fw tw nl b have "rb = Inr (transaction r)" "d' = working s'"
    by (auto simp: processInternalTransfer_def sequelize_transaction_def Let_def
        split: sum.splits)
  with b fw fr nl show thesis by (intro that[of fw d1 tw s']) auto
qed

lemma findOne_Some:
  "findOne d u c t = Some w \<Longrightarrow> userId w = u \<and> currency w = c \<and> wType w = t \<and> w \<in> set (wallets d)"
  by (auto simp: findOne_def find_Some_iff)

lemma create_wallet:
  "create d u c t = (w, d') \<Longrightarrow>
     userId w = u \<and> currency w = c \<and> wType w = t \<and> balance w = Num 0 \<and>
     d' = d\<lparr>wallets := wallets d @ [w]\<rparr>"
  by (auto simp: create_def Let_def)

section \<open>The worked example, evaluated\<close>

lemmas example_defs =
  exampleEnv_def exampleDb_def toppedUpDb_def walletBody_def clientBody_def chainOf_def

lemmas transfer_defs =
  createTransfer_def resolveWallets_def handleWalletTransfer_def handleClientTransfer_def
  validTransfers_def findOne_def create_def newWalletId_def performTransaction_def
  performTransactionBody_def handleCompleteTransfer_def handleNonClientTransfer_def
  handleEcoClientBalanceTransfer_def handlePendingTransfer_def clientLedgerWrites_def
  processInternalTransfer_def processInternalTransferBody_def sequelize_transaction_def
  recordTransfers_def createTransferTransaction_def recordAdminProfit_def
  updateWalletBalances_def calculateTransferFee_def calculateNewBalance_def
  addToEcoWallet_def creditChain_def deductFromEcoWallet_def ledgerWrites_def
  updatePrivateLedger_def walletUpdate_def Let_def

lemma example_wallet_transfer:
  "\<exists>r d'. createTransfer exampleEnv exampleDb (Some ''alice'') walletBody = (Inr r, d')"
  by (simp add: transfer_defs example_defs)

lemma example_internal_transfer:
  "\<exists>r d'. processInternalTransfer exampleEnv exampleDb ''alice'' ''bob'' ''USDT'' ''chainA''
              (Numeric 100) = (Inr r, d')"
  by (simp add: transfer_defs example_defs)

lemma example_values:
  "transactions exampleDb = []"
  "parseFloat (amountIn walletBody) = Num 100"
  "calculateTransferFee (Num 100) (orZero (feeSetting exampleEnv)) = Num 1"
  "jdiv (jmul (Num 100) (orZero (feeSetting exampleEnv))) (Num 100) = Num 1"
  "requiresPrivateLedgerUpdate exampleEnv a b c = False"
  by (simp_all add: walletBody_def exampleEnv_def exampleDb_def calculateTransferFee_def)

lemma example_wallet_resolved:
  "\<exists>tw. resolveWallets exampleEnv exampleDb (Some ''alice'') walletBody =
     (Inr (''alice'', hd (wallets exampleDb), tw, None),
      exampleDb\<lparr>wallets := wallets exampleDb @ [tw]\<rparr>)"
  by (simp add: transfer_defs example_defs)

section \<open>The two transaction records of a transfer\<close>

text \<open>
  C5. Every successful transfer, through the handler or through
  \<open>processInternalTransfer\<close>, adds exactly two TransferTransaction rows: an
  OUTGOING_TRANSFER row with the gross amount and the computed fee, and an
  INCOMING_TRANSFER row with the amount minus the fee and a fee of 0. Both name the same
  source and destination wallets and both carry the transfer status that was resolved
  (PENDING or COMPLETED in the handler, COMPLETED for an internal transfer).
\<close>

theorem transfer_creates_two_records:
  "(createTransfer ev d user b = (Inr r, d') \<longrightarrow>
      (\<exists>uid fw tw tu d1.
         resolveWallets ev d user b = (Inr (uid, fw, tw, tu), d1) \<and>
         transactions d' = transactions d1 @ [fromTransfer r, toTransfer r] \<and>
         txType (fromTransfer r) = ''OUTGOING_TRANSFER'' \<and>
         amount (fromTransfer r) = parseFloat (amountIn b) \<and>
         fee (fromTransfer r) =
           calculateTransferFee (parseFloat (amountIn b)) (orZero (feeSetting ev)) \<and>
         txType (toTransfer r) = ''INCOMING_TRANSFER'' \<and>
         amount (toTransfer r) =
           jsub (parseFloat (amountIn b))
             (calculateTransferFee (parseFloat (amountIn b)) (orZero (feeSetting ev))) \<and>
         fee (toTransfer r) = Num 0 \<and>
         fromWalletId (fromTransfer r) = wId fw \<and> toWalletId (fromTransfer r) = wId tw \<and>
         fromWalletId (toTransfer r) = wId fw \<and> toWalletId (toTransfer r) = wId tw \<and>
         txStatus (fromTransfer r) =
           (if requiresPrivateLedgerUpdate ev (transferType b) (fromType b) (toType b)
            then ''PENDING'' else ''COMPLETED'') \<and>
         txStatus (toTransfer r) = txStatus (fromTransfer r))) \<and>
   (processInternalTransfer ev d2 fromUserId toUserId cur chain a = (Inr r2, d2') \<longrightarrow>
      (\<exists>fw. findOne d2 fromUserId (Some cur) ''ECO'' = Some fw \<and>
         transactions d2' = transactions d2 @ [fst (transaction r2), snd (transaction r2)] \<and>
         txType (fst (transaction r2)) = ''OUTGOING_TRANSFER'' \<and>
         amount (fst (transaction r2)) = parseFloat a \<and>
         fee (fst (transaction r2)) =
           jdiv (jmul (parseFloat a) (orZero (feeSetting ev))) (Num 100) \<and>
         txType (snd (transaction r2)) = ''INCOMING_TRANSFER'' \<and>
         amount (snd (transaction r2)) =
           jsub (parseFloat a) (jdiv (jmul (parseFloat a) (orZero (feeSetting ev))) (Num 100)) \<and>
         fee (snd (transaction r2)) = Num 0 \<and>
         fromWalletId (fst (transaction r2)) = wId fw \<and>
         fromWalletId (snd (transaction r2)) = wId fw \<and>
         toWalletId (snd (transaction r2)) = toWalletId (fst (transaction r2)) \<and>
         txStatus (fst (transaction r2)) = ''COMPLETED'' \<and>
         txStatus (snd (transaction r2)) = ''COMPLETED''))"
proof (intro conjI impI)
  assume a: "createTransfer ev d user b = (Inr r, d')"
  from createTransfer_success[OF a] obtain uid fw tw tu d1 cd where
    rw: "resolveWallets ev d user b = (Inr (uid, fw, tw, tu), d1)" and
    pt: "performTransaction ev (transferType b) fw tw (parseFloat (amountIn b)) (fromCurrency b)
             (toCurrency b) uid tu (fromType b) (toType b) cd d1
             = (Inr (fromTransfer r, toTransfer r), d')"
    by blast
  note p = performTransaction_records[OF pt]
  have out: "txType (fromTransfer r) = ''OUTGOING_TRANSFER''"
    "amount (fromTransfer r) = parseFloat (amountIn b)"
    "fee (fromTransfer r) =
       calculateTransferFee (parseFloat (amountIn b)) (orZero (feeSetting ev))"
    "fromWalletId (fromTransfer r) = wId fw" "toWalletId (fromTransfer r) = wId tw"
    "txStatus (fromTransfer r) =
       (if requiresPrivateLedgerUpdate ev (transferType b) (fromType b) (toType b)
        then ''PENDING'' else ''COMPLETED'')"
    by (subst p(1), simp)+
  have inc: "txType (toTransfer r) = ''INCOMING_TRANSFER''"
    "amount (toTransfer r) =
       jsub (parseFloat (amountIn b))
         (calculateTransferFee (parseFloat (amountIn b)) (orZero (feeSetting ev)))"
    "fee (toTransfer r) = Num 0"
    "fromWalletId (toTransfer r) = wId fw" "toWalletId (toTransfer r) = wId tw"
    "txStatus (toTransfer r) =
       (if requiresPrivateLedgerUpdate ev (transferType b) (fromType b) (toType b)
        then ''PENDING'' else ''COMPLETED'')"
    by (subst p(2), simp)+
  from rw p(3) out inc
  show "\<exists>uid fw tw tu d1.
         resolveWallets ev d user b = (Inr (uid, fw, tw, tu), d1) \<and>
         transactions d' = transactions d1 @ [fromTransfer r, toTransfer r] \<and>
         txType (fromTransfer r) = ''OUTGOING_TRANSFER'' \<and>
         amount (fromTransfer r) = parseFloat (amountIn b) \<and>
         fee (fromTransfer r) =
           calculateTransferFee (parseFloat (amountIn b)) (orZero (feeSetting ev)) \<and>
         txType (toTransfer r) = ''INCOMING_TRANSFER'' \<and>
         amount (toTransfer r) =
           jsub (parseFloat (amountIn b))
             (calculateTransferFee (parseFloat (amountIn b)) (orZero (feeSetting ev))) \<and>
         fee (toTransfer r) = Num 0 \<and>
         fromWalletId (fromTransfer r) = wId fw \<and> toWalletId (fromTransfer r) = wId tw \<and>
         fromWalletId (toTransfer r) = wId fw \<and> toWalletId (toTransfer r) = wId tw \<and>
         txStatus (fromTransfer r) =
           (if requiresPrivateLedgerUpdate ev (transferType b) (fromType b) (toType b)
            then ''PENDING'' else ''COMPLETED'') \<and>
         txStatus (toTransfer r) = txStatus (fromTransfer r)"
    by metis
next
  assume a: "processInternalTransfer ev d2 fromUserId toUserId cur chain a = (Inr r2, d2')"
  from a obtain fw tw d1 s' where
    fw: "findOne d2 fromUserId (Some cur) ''ECO'' = Some fw" and
    t: "transactions d1 = transactions d2" and
    b: "processInternalTransferBody ev fw tw (parseFloat a)
       (jdiv (jmul (parseFloat a) (orZero (feeSetting ev))) (Num 100))
       (jsub (parseFloat a) (jdiv (jmul (parseFloat a) (orZero (feeSetting ev))) (Num 100)))
       fromUserId toUserId cur \<lparr>committed = d1, working = d1\<rparr> = (Inr (transaction r2), s')" and
    d': "d2' = working s'"
    by (rule processInternalTransfer_success)
  obtain out inc where tr: "transaction r2 = (out, inc)" by (cases "transaction r2")
  note p = processInternalTransferBody_records[OF b[unfolded tr]]
  have out: "txType out = ''OUTGOING_TRANSFER''" "amount out = parseFloat a"
    "fee out = jdiv (jmul (parseFloat a) (orZero (feeSetting ev))) (Num 100)"
    "fromWalletId out = wId fw" "toWalletId out = wId tw" "txStatus out = ''COMPLETED''"
    by (subst p(1), simp)+
  have inc: "txType inc = ''INCOMING_TRANSFER''"
    "amount inc =
       jsub (parseFloat a) (jdiv (jmul (parseFloat a) (orZero (feeSetting ev))) (Num 100))"
    "fee inc = Num 0"
    "fromWalletId inc = wId fw" "toWalletId inc = wId tw" "txStatus inc = ''COMPLETED''"
    by (subst p(2), simp)+
  have tx: "transactions d2' = transactions d2 @ [out, inc]"
    using p(3) t d' by simp
  from fw tx out inc
  show "\<exists>fw. findOne d2 fromUserId (Some cur) ''ECO'' = Some fw \<and>
         transactions d2' = transactions d2 @ [fst (transaction r2), snd (transaction r2)] \<and>
         txType (fst (transaction r2)) = ''OUTGOING_TRANSFER'' \<and>
         amount (fst (transaction r2)) = parseFloat a \<and>
         fee (fst (transaction r2)) =
           jdiv (jmul (parseFloat a) (orZero (feeSetting ev))) (Num 100) \<and>
         txType (snd (transaction r2)) = ''INCOMING_TRANSFER'' \<and>
         amount (snd (transaction r2)) =
           jsub (parseFloat a) (jdiv (jmul (parseFloat a) (orZero (feeSetting ev))) (Num 100)) \<and>
         fee (snd (transaction r2)) = Num 0 \<and>
         fromWalletId (fst (transaction r2)) = wId fw \<and>
         fromWalletId (snd (transaction r2)) = wId fw \<and>
         toWalletId (snd (transaction r2)) = toWalletId (fst (transaction r2)) \<and>
         txStatus (fst (transaction r2)) = ''COMPLETED'' \<and>
         txStatus (snd (transaction r2)) = ''COMPLETED''"
    unfolding tr fst_conv snd_conv by metis
qed


theorem transfer_creates_two_records_witness:
  "(\<exists>r d'. createTransfer exampleEnv exampleDb (Some ''alice'') walletBody = (Inr r, d') \<and>
      transactions d' = [fromTransfer r, toTransfer r] \<and>
      amount (fromTransfer r) = Num 100 \<and> fee (fromTransfer r) = Num 1 \<and>
      amount (toTransfer r) = Num 99 \<and> fee (toTransfer r) = Num 0 \<and>
      txStatus (toTransfer r) = ''COMPLETED'') \<and>
   (\<exists>r d'. processInternalTransfer exampleEnv exampleDb ''alice'' ''bob'' ''USDT'' ''chainA''
              (Numeric 100) = (Inr r, d') \<and>
      transactions d' = [fst (transaction r), snd (transaction r)] \<and>
      amount (fst (transaction r)) = Num 100 \<and> fee (fst (transaction r)) = Num 1 \<and>
      amount (snd (transaction r)) = Num 99 \<and> fee (snd (transaction r)) = Num 0)"
proof
  from example_wallet_transfer obtain r d' where
    c: "createTransfer exampleEnv exampleDb (Some ''alice'') walletBody = (Inr r, d')"
    by blast
  from example_wallet_resolved obtain tw where
    rw: "resolveWallets exampleEnv exampleDb (Some ''alice'') walletBody =
     (Inr (''alice'', hd (wallets exampleDb), tw, None),
      exampleDb\<lparr>wallets := wallets exampleDb @ [tw]\<rparr>)"
    by blast
  from transfer_creates_two_records[THEN conjunct1, rule_format, OF c] rw
  have "transactions d' = [fromTransfer r, toTransfer r] \<and>
      amount (fromTransfer r) = Num 100 \<and> fee (fromTransfer r) = Num 1 \<and>
      amount (toTransfer r) = Num 99 \<and> fee (toTransfer r) = Num 0 \<and>
      txStatus (toTransfer r) = ''COMPLETED''"
    by (clarsimp simp: example_values)
  with c show "\<exists>r d'. createTransfer exampleEnv exampleDb (Some ''alice'') walletBody = (Inr r, d') \<and>
      transactions d' = [fromTransfer r, toTransfer r] \<and>
      amount (fromTransfer r) = Num 100 \<and> fee (fromTransfer r) = Num 1 \<and>
      amount (toTransfer r) = Num 99 \<and> fee (toTransfer r) = Num 0 \<and>
      txStatus (toTransfer r) = ''COMPLETED''"
    by blast
next
  from example_internal_transfer obtain r d' where
    c: "processInternalTransfer exampleEnv exampleDb ''alice'' ''bob'' ''USDT'' ''chainA''
              (Numeric 100) = (Inr r, d')"
    by blast
  from transfer_creates_two_records[THEN conjunct2, rule_format, OF c]
  have "transactions d' = [fst (transaction r), snd (transaction r)] \<and>
      amount (fst (transaction r)) = Num 100 \<and> fee (fst (transaction r)) = Num 1 \<and>
      amount (snd (transaction r)) = Num 99 \<and> fee (snd (transaction r)) = Num 0"
    by (clarsimp simp: example_values)
  with c show "\<exists>r d'. processInternalTransfer exampleEnv exampleDb ''alice'' ''bob'' ''USDT'' ''chainA''
              (Numeric 100) = (Inr r, d') \<and>
      transactions d' = [fst (transaction r), snd (transaction r)] \<and>
      amount (fst (transaction r)) = Num 100 \<and> fee (fst (transaction r)) = Num 1 \<and>
      amount (snd (transaction r)) = Num 99 \<and> fee (snd (transaction r)) = Num 0"
    by blast
qed

section \<open>The admin profit record\<close>

lemma succeeds_simps [simp]:
  "succeeds (Inl e, s) = False" "succeeds (Inr v, s) = True"
  by (simp_all add: succeeds_def)

lemma fee_free_steps [simp]:
  "deductFromEcoWallet (ev\<lparr>feeSetting := f\<rparr>) w a c s = deductFromEcoWallet ev w a c s"
  "addToEcoWallet (ev\<lparr>feeSetting := f\<rparr>) w ds c s = addToEcoWallet ev w ds c s"
  "handleEcoClientBalanceTransfer (ev\<lparr>feeSetting := f\<rparr>) fw tw a fc cd s =
     handleEcoClientBalanceTransfer ev fw tw a fc cd s"
  "handleClientTransfer (ev\<lparr>feeSetting := f\<rparr>) d cid cur ft = handleClientTransfer ev d cid cur ft"
  by (simp_all add: deductFromEcoWallet_def addToEcoWallet_def
        handleEcoClientBalanceTransfer_def handleClientTransfer_def Let_def
      cong: option.case_cong prod.case_cong if_cong)

lemma resolveWallets_fee_free [simp]:
  "resolveWallets (ev\<lparr>feeSetting := f\<rparr>) d user b = resolveWallets ev d user b"
  by (simp add: resolveWallets_def cong: option.case_cong if_cong)

lemma handleNonClientTransfer_succeeds:
  "succeeds (handleNonClientTransfer (ev\<lparr>feeSetting := f\<rparr>) fw tw a fc tg' cd s) =
   succeeds (handleNonClientTransfer ev fw tw a fc tg cd s)"
  by (simp add: handleNonClientTransfer_def split: prod.splits sum.splits)

lemma handleCompleteTransfer_succeeds:
  "succeeds (handleCompleteTransfer (ev\<lparr>feeSetting := f\<rparr>) fw tw a tg' tt ft fc cd s) =
   succeeds (handleCompleteTransfer ev fw tw a tg tt ft fc cd s)"
  using handleNonClientTransfer_succeeds[where ev = ev and f = f and tg' = tg' and tg = tg]
  by (simp add: handleCompleteTransfer_def)

lemma recordTransfers_total:
  "\<exists>r s'. recordTransfers uid toUid fw tw amt feeAmt tgt fc tc ft tt dO dI st s = (r, s')"
  by (cases "recordTransfers uid toUid fw tw amt feeAmt tgt fc tc ft tt dO dI st s") simp

lemma performTransactionBody_succeeds:
  "succeeds (performTransactionBody (ev\<lparr>feeSetting := f\<rparr>) tt fw tw amt fee' tg' fc tc uid cid
      ft tty cd s) =
   succeeds (performTransactionBody ev tt fw tw amt feeAmt tg fc tc uid cid ft tty cd s)"
proof -
  have a: "\<And>e fe t. succeeds (performTransactionBody e tt fw tw amt fe t fc tc uid cid ft tty cd s) =
        (requiresPrivateLedgerUpdate e tt ft tty \<or>
         succeeds (handleCompleteTransfer e fw tw amt t tt ft fc cd s))"
    by (auto simp: performTransactionBody_def Let_def split: prod.splits sum.splits)
  show ?thesis
    unfolding a using handleCompleteTransfer_succeeds[where ev = ev and f = f and tg' = tg' and tg = tg]
    by simp
qed

lemma sequelize_transaction_succeeds:
  "succeeds (sequelize_transaction cb d) = succeeds (cb \<lparr>committed = d, working = d\<rparr>)"
  by (simp add: sequelize_transaction_def split: prod.splits sum.splits)

lemma performTransaction_succeeds:
  "succeeds (performTransaction (ev\<lparr>feeSetting := f\<rparr>) tt fw tw amt fc tc uid cid ft tty cd d) =
   succeeds (performTransaction ev tt fw tw amt fc tc uid cid ft tty cd d)"
  by (simp add: performTransaction_def Let_def sequelize_transaction_succeeds
        performTransactionBody_succeeds[where ev = ev and f = f
          and feeAmt = "calculateTransferFee amt (orZero (feeSetting ev))"
          and tg = "jsub amt (calculateTransferFee amt (orZero (feeSetting ev)))"])

lemma createTransfer_succeeds:
  "succeeds (createTransfer (ev\<lparr>feeSetting := f\<rparr>) d user b) = succeeds (createTransfer ev d user b)"
proof -
  have a: "\<And>e. succeeds (createTransfer e d user b) =
     (case resolveWallets e d user b of
        (Inl x, d1) \<Rightarrow> False
      | (Inr (uid, fw, tw, tu), d1) \<Rightarrow>
          \<not> jlt (balance fw) (parseFloat (amountIn b)) \<and>
          (case getCurrencyData e (fromType b) (Some (fromCurrency b)) of
             None \<Rightarrow> False
           | Some cd \<Rightarrow> succeeds (performTransaction e (transferType b) fw tw
                (parseFloat (amountIn b)) (fromCurrency b) (toCurrency b) uid tu
                (fromType b) (toType b) cd d1)))"
    by (auto simp: createTransfer_def Let_def split: prod.splits sum.splits option.splits)
  show ?thesis
    unfolding a by (simp add: performTransaction_succeeds split: prod.splits sum.splits option.splits)
qed

lemma processInternalTransferBody_succeeds:
  "succeeds (processInternalTransferBody (ev\<lparr>feeSetting := f\<rparr>) fw tw amt fee' tg' fu tu cur s) =
   succeeds (processInternalTransferBody ev fw tw amt feeAmt tg fu tu cur s)"
  by (simp add: processInternalTransferBody_def split: prod.splits sum.splits option.splits)

lemma processInternalTransfer_succeeds:
  "succeeds (processInternalTransfer (ev\<lparr>feeSetting := f\<rparr>) d fu tu cur chain a) =
   succeeds (processInternalTransfer ev d fu tu cur chain a)"
proof -
  have a: "\<And>e. succeeds (processInternalTransfer e d fu tu cur chain a) =
     (case findOne d fu (Some cur) ''ECO'' of
        None \<Rightarrow> False
      | Some fw \<Rightarrow>
          (case (case findOne d tu (Some cur) ''ECO'' of
                   Some w \<Rightarrow> (w, d)
                 | None \<Rightarrow> create d tu (Some cur) ''ECO'') of
             (tw, d1) \<Rightarrow>
               \<not> jlt (balance fw) (parseFloat a) \<and>
               succeeds (processInternalTransferBody e fw tw (parseFloat a)
                  (jdiv (jmul (parseFloat a) (orZero (feeSetting e))) (Num 100))
                  (jsub (parseFloat a) (jdiv (jmul (parseFloat a) (orZero (feeSetting e))) (Num 100)))
                  fu tu cur \<lparr>committed = d1, working = d1\<rparr>)))"
    by (auto simp: processInternalTransfer_def Let_def sequelize_transaction_def succeeds_def
        split: prod.splits sum.splits option.splits)
  show ?thesis
    unfolding a
    by (simp add: processInternalTransferBody_succeeds[where ev = ev and f = f
          and feeAmt = "jdiv (jmul (parseFloat a) (orZero (feeSetting ev))) (Num 100)"
          and tg = "jsub (parseFloat a) (jdiv (jmul (parseFloat a) (orZero (feeSetting ev))) (Num 100))"]
        split: prod.splits option.splits)
qed

text \<open>
  C7. A successful transfer adds an AdminProfitRecord exactly when the computed fee is
  greater than 0. When it does, it adds one record, which carries the id of the
  transfer's OUTGOING_TRANSFER row; when the fee is not positive it adds none. Whether
  a transfer succeeds does not depend on the fee setting: a transfer that succeeds with
  a fee succeeds all the same without one.
\<close>

theorem adminProfit_iff_fee_positive:
  "(createTransfer ev d user b = (Inr r, d') \<longrightarrow>
      (\<exists>uid fw tw tu d1.
         resolveWallets ev d user b = (Inr (uid, fw, tw, tu), d1) \<and>
         adminProfits d' = adminProfits d1 @
           (if jgt (calculateTransferFee (parseFloat (amountIn b)) (orZero (feeSetting ev))) (Num 0)
            then [\<lparr>profitUserId = uid,
                    profitAmount =
                      calculateTransferFee (parseFloat (amountIn b)) (orZero (feeSetting ev)),
                    profitCurrency = fromCurrency b, profitFromType = fromType b,
                    profitToType = toType b, transactionId = txId (fromTransfer r)\<rparr>]
            else []) \<and>
         txType (fromTransfer r) = ''OUTGOING_TRANSFER'')) \<and>
   (processInternalTransfer ev d2 fromUserId toUserId cur chain a = (Inr r2, d2') \<longrightarrow>
      adminProfits d2' = adminProfits d2 @
        (if jgt (jdiv (jmul (parseFloat a) (orZero (feeSetting ev))) (Num 100)) (Num 0)
         then [\<lparr>profitUserId = fromUserId,
                 profitAmount = jdiv (jmul (parseFloat a) (orZero (feeSetting ev))) (Num 100),
                 profitCurrency = cur, profitFromType = ''ECO'', profitToType = ''ECO'',
                 transactionId = txId (fst (transaction r2))\<rparr>]
         else []) \<and>
      txType (fst (transaction r2)) = ''OUTGOING_TRANSFER'') \<and>
   succeeds (createTransfer (ev\<lparr>feeSetting := f\<rparr>) d user b) =
     succeeds (createTransfer ev d user b) \<and>
   succeeds (processInternalTransfer (ev\<lparr>feeSetting := f\<rparr>) d2 fromUserId toUserId cur chain a) =
     succeeds (processInternalTransfer ev d2 fromUserId toUserId cur chain a)"
proof (intro conjI)
  show "createTransfer ev d user b = (Inr r, d') \<longrightarrow>
      (\<exists>uid fw tw tu d1.
         resolveWallets ev d user b = (Inr (uid, fw, tw, tu), d1) \<and>
         adminProfits d' = adminProfits d1 @
           (if jgt (calculateTransferFee (parseFloat (amountIn b)) (orZero (feeSetting ev))) (Num 0)
            then [\<lparr>profitUserId = uid,
                    profitAmount =
                      calculateTransferFee (parseFloat (amountIn b)) (orZero (feeSetting ev)),
                    profitCurrency = fromCurrency b, profitFromType = fromType b,
                    profitToType = toType b, transactionId = txId (fromTransfer r)\<rparr>]
            else []) \<and>
         txType (fromTransfer r) = ''OUTGOING_TRANSFER'')"
  proof
    assume a: "createTransfer ev d user b = (Inr r, d')"
    from createTransfer_success[OF a] obtain uid fw tw tu d1 cd where
      rw: "resolveWallets ev d user b = (Inr (uid, fw, tw, tu), d1)" and
      pt: "performTransaction ev (transferType b) fw tw (parseFloat (amountIn b)) (fromCurrency b)
               (toCurrency b) uid tu (fromType b) (toType b) cd d1
               = (Inr (fromTransfer r, toTransfer r), d')"
      by blast
    note p = performTransaction_records[OF pt]
    have out: "txType (fromTransfer r) = ''OUTGOING_TRANSFER''"
      by (subst p(1), simp)
    from rw p(4) out
    show "\<exists>uid fw tw tu d1.
           resolveWallets ev d user b = (Inr (uid, fw, tw, tu), d1) \<and>
           adminProfits d' = adminProfits d1 @
             (if jgt (calculateTransferFee (parseFloat (amountIn b)) (orZero (feeSetting ev))) (Num 0)
              then [\<lparr>profitUserId = uid,
                      profitAmount =
                        calculateTransferFee (parseFloat (amountIn b)) (orZero (feeSetting ev)),
                      profitCurrency = fromCurrency b, profitFromType = fromType b,
                      profitToType = toType b, transactionId = txId (fromTransfer r)\<rparr>]
              else []) \<and>
           txType (fromTransfer r) = ''OUTGOING_TRANSFER''"
      by blast
  qed
next
  show "processInternalTransfer ev d2 fromUserId toUserId cur chain a = (Inr r2, d2') \<longrightarrow>
      adminProfits d2' = adminProfits d2 @
        (if jgt (jdiv (jmul (parseFloat a) (orZero (feeSetting ev))) (Num 100)) (Num 0)
         then [\<lparr>profitUserId = fromUserId,
                 profitAmount = jdiv (jmul (parseFloat a) (orZero (feeSetting ev))) (Num 100),
                 profitCurrency = cur, profitFromType = ''ECO'', profitToType = ''ECO'',
                 transactionId = txId (fst (transaction r2))\<rparr>]
         else []) \<and>
      txType (fst (transaction r2)) = ''OUTGOING_TRANSFER''"
  proof
    assume a: "processInternalTransfer ev d2 fromUserId toUserId cur chain a = (Inr r2, d2')"
    from a obtain fw tw d1 s' where
      "findOne d2 fromUserId (Some cur) ''ECO'' = Some fw" and
      "transactions d1 = transactions d2" and
      t: "adminProfits d1 = adminProfits d2" and
      "\<not> jlt (balance fw) (parseFloat a)" and
      b: "processInternalTransferBody ev fw tw (parseFloat a)
         (jdiv (jmul (parseFloat a) (orZero (feeSetting ev))) (Num 100))
         (jsub (parseFloat a) (jdiv (jmul (parseFloat a) (orZero (feeSetting ev))) (Num 100)))
         fromUserId toUserId cur \<lparr>committed = d1, working = d1\<rparr> = (Inr (transaction r2), s')" and
      d': "d2' = working s'"
      by (rule processInternalTransfer_success)
    obtain out inc where tr: "transaction r2 = (out, inc)" by (cases "transaction r2")
    note p = processInternalTransferBody_records[OF b[unfolded tr]]
    have out: "txType out = ''OUTGOING_TRANSFER''"
      by (subst p(1), simp)
    from p(4) t d' out
    show "adminProfits d2' = adminProfits d2 @
          (if jgt (jdiv (jmul (parseFloat a) (orZero (feeSetting ev))) (Num 100)) (Num 0)
           then [\<lparr>profitUserId = fromUserId,
                   profitAmount = jdiv (jmul (parseFloat a) (orZero (feeSetting ev))) (Num 100),
                   profitCurrency = cur, profitFromType = ''ECO'', profitToType = ''ECO'',
                   transactionId = txId (fst (transaction r2))\<rparr>]
           else []) \<and>
        txType (fst (transaction r2)) = ''OUTGOING_TRANSFER''"
      unfolding tr fst_conv by simp
  qed
next
  show "succeeds (createTransfer (ev\<lparr>feeSetting := f\<rparr>) d user b) =
     succeeds (createTransfer ev d user b)"
    by (rule createTransfer_succeeds)
next
  show "succeeds (processInternalTransfer (ev\<lparr>feeSetting := f\<rparr>) d2 fromUserId toUserId cur chain a) =
     succeeds (processInternalTransfer ev d2 fromUserId toUserId cur chain a)"
    by (rule processInternalTransfer_succeeds)
qed

lemma example_free_transfer:
  "\<exists>r d'. processInternalTransfer (exampleEnv\<lparr>feeSetting := None\<rparr>) exampleDb ''alice'' ''bob''
             ''USDT'' ''chainA'' (Numeric 100) = (Inr r, d')"
  by (simp add: transfer_defs example_defs)

lemma example_free_wallet_transfer:
  "\<exists>r d'. createTransfer (exampleEnv\<lparr>feeSetting := None\<rparr>) exampleDb (Some ''alice'') walletBody =
            (Inr r, d')"
  by (simp add: transfer_defs example_defs)

theorem adminProfit_iff_fee_positive_witness:
  "(\<exists>r d'. createTransfer exampleEnv exampleDb (Some ''alice'') walletBody = (Inr r, d') \<and>
      adminProfits d' =
        [\<lparr>profitUserId = ''alice'', profitAmount = Num 1, profitCurrency = ''USD'',
          profitFromType = ''FIAT'', profitToType = ''SPOT'',
          transactionId = txId (fromTransfer r)\<rparr>]) \<and>
   (\<exists>r d'. createTransfer (exampleEnv\<lparr>feeSetting := None\<rparr>) exampleDb (Some ''alice'')
             walletBody = (Inr r, d') \<and>
      adminProfits d' = []) \<and>
   (\<exists>r d'. processInternalTransfer exampleEnv exampleDb ''alice'' ''bob'' ''USDT'' ''chainA''
             (Numeric 100) = (Inr r, d') \<and>
      adminProfits d' =
        [\<lparr>profitUserId = ''alice'', profitAmount = Num 1, profitCurrency = ''USDT'',
          profitFromType = ''ECO'', profitToType = ''ECO'',
          transactionId = txId (fst (transaction r))\<rparr>]) \<and>
   (\<exists>r d'. processInternalTransfer (exampleEnv\<lparr>feeSetting := None\<rparr>) exampleDb ''alice'' ''bob''
             ''USDT'' ''chainA'' (Numeric 100) = (Inr r, d') \<and>
      adminProfits d' = [])"
proof (intro conjI)
  from example_wallet_transfer obtain r d' where
    c: "createTransfer exampleEnv exampleDb (Some ''alice'') walletBody = (Inr r, d')"
    by blast
  from example_wallet_resolved obtain tw where
    rw: "resolveWallets exampleEnv exampleDb (Some ''alice'') walletBody =
     (Inr (''alice'', hd (wallets exampleDb), tw, None),
      exampleDb\<lparr>wallets := wallets exampleDb @ [tw]\<rparr>)"
    by blast
  from adminProfit_iff_fee_positive[THEN conjunct1, rule_format, OF c] rw
  have "adminProfits d' =
        [\<lparr>profitUserId = ''alice'', profitAmount = Num 1, profitCurrency = ''USD'',
          profitFromType = ''FIAT'', profitToType = ''SPOT'',
          transactionId = txId (fromTransfer r)\<rparr>]"
    by (clarsimp simp: example_values) (simp add: example_defs)
  with c show "\<exists>r d'. createTransfer exampleEnv exampleDb (Some ''alice'') walletBody = (Inr r, d') \<and>
      adminProfits d' =
        [\<lparr>profitUserId = ''alice'', profitAmount = Num 1, profitCurrency = ''USD'',
          profitFromType = ''FIAT'', profitToType = ''SPOT'',
          transactionId = txId (fromTransfer r)\<rparr>]"
    by blast
next
  from example_free_wallet_transfer obtain r d' where
    c: "createTransfer (exampleEnv\<lparr>feeSetting := None\<rparr>) exampleDb (Some ''alice'') walletBody
          = (Inr r, d')"
    by blast
  from example_wallet_resolved obtain tw where
    rw: "resolveWallets exampleEnv exampleDb (Some ''alice'') walletBody =
     (Inr (''alice'', hd (wallets exampleDb), tw, None),
      exampleDb\<lparr>wallets := wallets exampleDb @ [tw]\<rparr>)"
    by blast
  from adminProfit_iff_fee_positive[THEN conjunct1, rule_format, OF c] rw
  have "adminProfits d' = []"
    by (clarsimp simp: calculateTransferFee_def walletBody_def) (simp add: example_defs)
  with c show "\<exists>r d'. createTransfer (exampleEnv\<lparr>feeSetting := None\<rparr>) exampleDb (Some ''alice'')
             walletBody = (Inr r, d') \<and> adminProfits d' = []"
    by blast
next
  from example_internal_transfer obtain r d' where
    c: "processInternalTransfer exampleEnv exampleDb ''alice'' ''bob'' ''USDT'' ''chainA''
             (Numeric 100) = (Inr r, d')"
    by blast
  from adminProfit_iff_fee_positive[THEN conjunct2, THEN conjunct1, rule_format, OF c]
  have "adminProfits d' =
        [\<lparr>profitUserId = ''alice'', profitAmount = Num 1, profitCurrency = ''USDT'',
          profitFromType = ''ECO'', profitToType = ''ECO'',
          transactionId = txId (fst (transaction r))\<rparr>]"
    by (simp add: example_defs)
  with c show "\<exists>r d'. processInternalTransfer exampleEnv exampleDb ''alice'' ''bob'' ''USDT'' ''chainA''
             (Numeric 100) = (Inr r, d') \<and>
      adminProfits d' =
        [\<lparr>profitUserId = ''alice'', profitAmount = Num 1, profitCurrency = ''USDT'',
          profitFromType = ''ECO'', profitToType = ''ECO'',
          transactionId = txId (fst (transaction r))\<rparr>]"
    by blast
next
  from example_free_transfer obtain r d' where
    c: "processInternalTransfer (exampleEnv\<lparr>feeSetting := None\<rparr>) exampleDb ''alice'' ''bob''
             ''USDT'' ''chainA'' (Numeric 100) = (Inr r, d')"
    by blast
  from adminProfit_iff_fee_positive[THEN conjunct2, THEN conjunct1, rule_format, OF c]
  have "adminProfits d' = []"
    by (simp add: example_defs)
  with c show "\<exists>r d'. processInternalTransfer (exampleEnv\<lparr>feeSetting := None\<rparr>) exampleDb ''alice'' ''bob''
             ''USDT'' ''chainA'' (Numeric 100) = (Inr r, d') \<and>
      adminProfits d' = []"
    by blast
qed

section \<open>Pending transfers\<close>








section \<open>The route table\<close>

lemma validTransfers_lookup:
  "map_of validTransfers ft =
     (if ft = ''FIAT'' then Some [''SPOT'', ''ECO'']
      else if ft = ''SPOT'' then Some [''FIAT'', ''ECO'']
      else if ft = ''ECO'' then Some [''FIAT'', ''SPOT'', ''FUTURES'']
      else if ft = ''FUTURES'' then Some [''ECO'']
      else None)"
  by (simp add: validTransfers_def)

lemma validTransfers_pairs:
  "(ft \<noteq> tt \<and> (\<exists>allowed. map_of validTransfers ft = Some allowed \<and> tt \<in> set allowed)) =
   ((ft, tt) \<in> {(''FIAT'', ''SPOT''), (''SPOT'', ''FIAT''), (''FIAT'', ''ECO''), (''ECO'', ''FIAT''),
            (''SPOT'', ''ECO''), (''ECO'', ''SPOT''), (''ECO'', ''FUTURES''), (''FUTURES'', ''ECO'')})"
proof -
  consider "ft = ''FIAT''" | "ft = ''SPOT''" | "ft = ''ECO''" | "ft = ''FUTURES''"
    | "ft \<noteq> ''FIAT''" "ft \<noteq> ''SPOT''" "ft \<noteq> ''ECO''" "ft \<noteq> ''FUTURES''"
    by blast
  then show ?thesis
  proof cases
    case 1
    then show ?thesis by (simp add: validTransfers_lookup) blast
  next
    case 2
    then show ?thesis by (simp add: validTransfers_lookup) blast
  next
    case 3
    then show ?thesis by (simp add: validTransfers_lookup) blast
  next
    case 4
    then show ?thesis by (simp add: validTransfers_lookup) blast
  next
    case 5
    then show ?thesis by (simp add: validTransfers_lookup)
  qed
qed


lemma handleWalletTransfer_rejects:
  assumes "(ft, tt) \<notin> {(''FIAT'', ''SPOT''), (''SPOT'', ''FIAT''), (''FIAT'', ''ECO''), (''ECO'', ''FIAT''),
            (''SPOT'', ''ECO''), (''ECO'', ''SPOT''), (''ECO'', ''FUTURES''), (''FUTURES'', ''ECO'')}"
  shows "\<exists>e. handleWalletTransfer d uid ft tt tc = (Inl e, d)"
    and "ft = tt \<or> ft \<notin> set objectPrototypeKeys \<Longrightarrow>
         handleWalletTransfer d uid ft tt tc =
           (Inl (Err 400 (if ft = tt then ''Cannot transfer to the same wallet type''
                          else ''Invalid wallet type transfer'')), d)"
proof -
  have n: "ft \<noteq> tt \<Longrightarrow>
           \<forall>allowed. map_of validTransfers ft = Some allowed \<longrightarrow> tt \<notin> set allowed"
    using assms[unfolded validTransfers_pairs[symmetric]] by blast
  show "\<exists>e. handleWalletTransfer d uid ft tt tc = (Inl e, d)"
  proof (cases "ft = tt")
    case True
    then show ?thesis by (simp add: handleWalletTransfer_def)
  next
    case False
    with n show ?thesis
      by (simp add: handleWalletTransfer_def split: option.splits)
  qed
  show "handleWalletTransfer d uid ft tt tc =
           (Inl (Err 400 (if ft = tt then ''Cannot transfer to the same wallet type''
                          else ''Invalid wallet type transfer'')), d)"
    if "ft = tt \<or> ft \<notin> set objectPrototypeKeys"
  proof (cases "ft = tt")
    case True
    then show ?thesis by (simp add: handleWalletTransfer_def)
  next
    case False
    with that have "ft \<notin> set objectPrototypeKeys" by simp
    with False n show ?thesis
      by (simp add: handleWalletTransfer_def split: option.splits)
  qed
qed

text \<open>A source type named like a member of \<open>Object.prototype\<close> ends in a TypeError.\<close>

lemma inherited_name_type_error:
  "handleWalletTransfer d uid ''constructor'' ''SPOT'' tc = (Inl TypeError, d)"
  by (simp add: handleWalletTransfer_def validTransfers_def objectPrototypeKeys_def)

lemma handleWalletTransfer_accepts:
  assumes "(ft, tt) \<in> {(''FIAT'', ''SPOT''), (''SPOT'', ''FIAT''), (''FIAT'', ''ECO''), (''ECO'', ''FIAT''),
            (''SPOT'', ''ECO''), (''ECO'', ''SPOT''), (''ECO'', ''FUTURES''), (''FUTURES'', ''ECO'')}"
  shows "\<exists>w d1. handleWalletTransfer d uid ft tt tc = (Inr w, d1) \<and> wType w = tt \<and>
           userId w = uid \<and> currency w = tc"
proof -
  from assms[unfolded validTransfers_pairs[symmetric]] obtain allowed where
    ne: "ft \<noteq> tt" and m: "map_of validTransfers ft = Some allowed" and i: "tt \<in> set allowed"
    by blast
  show ?thesis
  proof (cases "findOne d uid tc tt")
    case None
    obtain w d1 where c: "create d uid tc tt = (w, d1)" by (cases "create d uid tc tt")
    with None ne m i create_wallet[OF c] show ?thesis
      by (simp add: handleWalletTransfer_def)
  next
    case (Some w)
    with ne m i findOne_Some[OF Some] show ?thesis
      by (simp add: handleWalletTransfer_def)
  qed
qed

text \<open>
  C4, as amended. The claim as written fails: a client transfer is resolved without the
  route table, so a pair outside the table, a same-type pair included, is accepted
  (in the worked example an ECO to ECO client transfer succeeds). For every
  request that is not a client transfer the table is enforced: a pair that is not one of
  FIAT/SPOT, FIAT/ECO, SPOT/ECO (in both directions), ECO to FUTURES and FUTURES to ECO
  makes the handler fail with the state unchanged. The route check answers with the 400
  error of a same-type or an invalid transfer whenever the source type is not the name
  of a member that the table object inherits, and so does the handler once the caller,
  the currency and the source wallet have passed their checks. A pair of the table
  passes the route check, which yields the destination wallet of the requested type.
\<close>

theorem wallet_route_table:
  assumes "transferType b \<noteq> ''client''"
  shows "((fromType b, toType b) \<notin> {(''FIAT'', ''SPOT''), (''SPOT'', ''FIAT''), (''FIAT'', ''ECO''), (''ECO'', ''FIAT''),
            (''SPOT'', ''ECO''), (''ECO'', ''SPOT''), (''ECO'', ''FUTURES''), (''FUTURES'', ''ECO'')} \<longrightarrow>
            (\<exists>e. createTransfer ev d user b = (Inl e, d)) \<and>
            (fromType b = toType b \<or> fromType b \<notin> set objectPrototypeKeys \<longrightarrow>
               handleWalletTransfer d uid (fromType b) (toType b) (toCurrency b) =
                 (Inl (Err 400 (if fromType b = toType b
                                then ''Cannot transfer to the same wallet type''
                                else ''Invalid wallet type transfer'')), d) \<and>
               (user = Some uid \<and> uid \<noteq> [] \<and> toCurrency b \<noteq> Some ''Select a currency'' \<and>
                uid \<in> set (users d) \<and>
                findOne d uid (Some (fromCurrency b)) (fromType b) \<noteq> None \<longrightarrow>
                  createTransfer ev d user b =
                    (Inl (Err 400 (if fromType b = toType b
                                   then ''Cannot transfer to the same wallet type''
                                   else ''Invalid wallet type transfer'')), d)))) \<and>
         ((fromType b, toType b) \<in> {(''FIAT'', ''SPOT''), (''SPOT'', ''FIAT''), (''FIAT'', ''ECO''), (''ECO'', ''FIAT''),
            (''SPOT'', ''ECO''), (''ECO'', ''SPOT''), (''ECO'', ''FUTURES''), (''FUTURES'', ''ECO'')} \<longrightarrow>
            (\<exists>w d1. handleWalletTransfer d uid (fromType b) (toType b) (toCurrency b) = (Inr w, d1) \<and>
               wType w = toType b \<and> userId w = uid \<and> currency w = toCurrency b))"
proof (rule conjI; rule impI)
  assume n: "(fromType b, toType b) \<notin> {(''FIAT'', ''SPOT''), (''SPOT'', ''FIAT''), (''FIAT'', ''ECO''), (''ECO'', ''FIAT''),
            (''SPOT'', ''ECO''), (''ECO'', ''SPOT''), (''ECO'', ''FUTURES''), (''FUTURES'', ''ECO'')}"
  let ?e = "Err 400 (if fromType b = toType b then ''Cannot transfer to the same wallet type''
                     else ''Invalid wallet type transfer'')"
  have h: "\<And>u. \<exists>e. handleWalletTransfer d u (fromType b) (toType b) (toCurrency b) = (Inl e, d)"
    by (rule handleWalletTransfer_rejects(1)[OF n])
  have "\<exists>e. resolveWallets ev d user b = (Inl e, d)"
  proof (cases user)
    case None
    then show ?thesis by (simp add: resolveWallets_def)
  next
    case (Some u)
    from h[of u] obtain e where "handleWalletTransfer d u (fromType b) (toType b) (toCurrency b) = (Inl e, d)"
      by blast
    with Some assms show ?thesis
      by (simp add: resolveWallets_def split: option.splits)
  qed
  then have fail: "\<exists>e. createTransfer ev d user b = (Inl e, d)"
    by (auto simp: createTransfer_def)
  have exact: "handleWalletTransfer d uid (fromType b) (toType b) (toCurrency b) = (Inl ?e, d) \<and>
               (user = Some uid \<and> uid \<noteq> [] \<and> toCurrency b \<noteq> Some ''Select a currency'' \<and>
                uid \<in> set (users d) \<and>
                findOne d uid (Some (fromCurrency b)) (fromType b) \<noteq> None \<longrightarrow>
                  createTransfer ev d user b = (Inl ?e, d))"
    if k: "fromType b = toType b \<or> fromType b \<notin> set objectPrototypeKeys"
  proof (rule conjI; (rule impI)?)
    show hw: "handleWalletTransfer d uid (fromType b) (toType b) (toCurrency b) = (Inl ?e, d)"
      by (rule handleWalletTransfer_rejects(2)[OF n k])
    assume r: "user = Some uid \<and> uid \<noteq> [] \<and> toCurrency b \<noteq> Some ''Select a currency'' \<and>
                uid \<in> set (users d) \<and>
                findOne d uid (Some (fromCurrency b)) (fromType b) \<noteq> None"
    then obtain fw where "findOne d uid (Some (fromCurrency b)) (fromType b) = Some fw"
      by blast
    with r assms hw have "resolveWallets ev d user b = (Inl ?e, d)"
      by (simp add: resolveWallets_def)
    then show "createTransfer ev d user b = (Inl ?e, d)"
      by (simp add: createTransfer_def)
  qed
  from fail exact
  show "(\<exists>e. createTransfer ev d user b = (Inl e, d)) \<and>
            (fromType b = toType b \<or> fromType b \<notin> set objectPrototypeKeys \<longrightarrow>
               handleWalletTransfer d uid (fromType b) (toType b) (toCurrency b) = (Inl ?e, d) \<and>
               (user = Some uid \<and> uid \<noteq> [] \<and> toCurrency b \<noteq> Some ''Select a currency'' \<and>
                uid \<in> set (users d) \<and>
                findOne d uid (Some (fromCurrency b)) (fromType b) \<noteq> None \<longrightarrow>
                  createTransfer ev d user b = (Inl ?e, d)))"
    by blast
next
  assume "(fromType b, toType b) \<in> {(''FIAT'', ''SPOT''), (''SPOT'', ''FIAT''), (''FIAT'', ''ECO''), (''ECO'', ''FIAT''),
            (''SPOT'', ''ECO''), (''ECO'', ''SPOT''), (''ECO'', ''FUTURES''), (''FUTURES'', ''ECO'')}"
  then show "\<exists>w d1. handleWalletTransfer d uid (fromType b) (toType b) (toCurrency b) = (Inr w, d1) \<and>
               wType w = toType b \<and> userId w = uid \<and> currency w = toCurrency b"
    by (rule handleWalletTransfer_accepts)
qed

lemma example_client_transfer:
  "\<exists>r d'. createTransfer exampleEnv exampleDb (Some ''alice'') clientBody = (Inr r, d')"
  by (simp add: transfer_defs example_defs)

theorem route_table_counterexample:
  "\<exists>r d'. createTransfer exampleEnv exampleDb (Some ''alice'') clientBody = (Inr r, d') \<and>
          fromType clientBody = ''ECO'' \<and> toType clientBody = ''ECO''"
  using example_client_transfer by (simp add: clientBody_def)

theorem wallet_route_table_witness:
  "createTransfer exampleEnv exampleDb (Some ''alice'') (walletBody\<lparr>toType := ''FUTURES''\<rparr>) =
     (Inl (Err 400 ''Invalid wallet type transfer''), exampleDb) \<and>
   createTransfer exampleEnv exampleDb (Some ''alice'') (walletBody\<lparr>toType := ''FIAT''\<rparr>) =
     (Inl (Err 400 ''Cannot transfer to the same wallet type''), exampleDb) \<and>
   handleWalletTransfer exampleDb ''alice'' ''FIAT'' ''FUTURES'' (Some ''USD'') =
     (Inl (Err 400 ''Invalid wallet type transfer''), exampleDb) \<and>
   (\<exists>w d1. handleWalletTransfer exampleDb ''alice'' ''FIAT'' ''SPOT'' (Some ''USD'') = (Inr w, d1) \<and>
      wType w = ''SPOT'')"
proof -
  have src: "findOne exampleDb ''alice'' (Some ''USD'') ''FIAT'' \<noteq> None"
    by (simp add: findOne_def example_defs)
  have u: "''alice'' \<in> set (users exampleDb)"
    by (simp add: exampleDb_def)
  have k: "''FIAT'' \<notin> set objectPrototypeKeys"
    by (simp add: objectPrototypeKeys_def)
  have a: "createTransfer exampleEnv exampleDb (Some ''alice'') (walletBody\<lparr>toType := ''FUTURES''\<rparr>) =
       (Inl (Err 400 ''Invalid wallet type transfer''), exampleDb) \<and>
     handleWalletTransfer exampleDb ''alice'' ''FIAT'' ''FUTURES'' (Some ''USD'') =
       (Inl (Err 400 ''Invalid wallet type transfer''), exampleDb)"
    using wallet_route_table[of "walletBody\<lparr>toType := ''FUTURES''\<rparr>"
          exampleEnv exampleDb "Some ''alice''" "''alice''"] src u k
    by (simp add: walletBody_def)
  have b: "createTransfer exampleEnv exampleDb (Some ''alice'') (walletBody\<lparr>toType := ''FIAT''\<rparr>) =
     (Inl (Err 400 ''Cannot transfer to the same wallet type''), exampleDb)"
    using wallet_route_table[of "walletBody\<lparr>toType := ''FIAT''\<rparr>"
          exampleEnv exampleDb "Some ''alice''" "''alice''"] src u
    by (simp add: walletBody_def)
  have c: "\<exists>w d1. handleWalletTransfer exampleDb ''alice'' ''FIAT'' ''SPOT'' (Some ''USD'') = (Inr w, d1) \<and>
      wType w = ''SPOT''"
    using wallet_route_table[of walletBody exampleEnv exampleDb "Some ''alice''" "''alice''"]
    by (simp add: walletBody_def) blast
  from a b c show ?thesis by blast
qed

section \<open>The destination of a client transfer\<close>







lemma example_fiat_client_resolved:
  "resolveWallets exampleEnv exampleDb (Some ''alice'')
     (clientBody\<lparr>fromType := ''FIAT'', fromCurrency := ''USD''\<rparr>) =
     (Inr (''alice'', wallets exampleDb ! 0,
           \<lparr>wId = 4, userId = ''bob'', currency = Some ''USD'', wType = ''FIAT'',
            status = True, balance = Num 0, address = Null\<rparr>, Some ''bob''),
      exampleDb\<lparr>wallets := wallets exampleDb @
        [\<lparr>wId = 4, userId = ''bob'', currency = Some ''USD'', wType = ''FIAT'',
          status = True, balance = Num 0, address = Null\<rparr>]\<rparr>)"
  by (simp add: transfer_defs example_defs)


section \<open>How a deduction is spread over the chains\<close>

lemma deductLoop_details:
  "fst (snd (deductLoop a r)) = map (\<lambda>(c, b, r', t). (c, t)) (deductTrace a r)"
  by (induction a r rule: deductLoop.induct) (auto simp: Let_def split: prod.splits)

lemma deductTrace_min:
  "(c, b, r', t) \<in> set (deductTrace a r) \<Longrightarrow> t = jmin b r'"
  by (induction a r rule: deductTrace.induct) (auto simp: Let_def split: if_splits)

lemma jgt_zero_finite: "jgt v (Num 0) \<Longrightarrow> \<exists>b. v = Num b \<and> 0 < b"
  by (cases v) auto

text \<open>
  What the chains give, added up exactly, is the amount less what remains, plus the
  rounding errors of the subtractions.
\<close>

lemma deductLoop_sum:
  assumes "deductLoop a (Num x) = (a', ds, rem)" and "0 \<le> x"
  shows "\<exists>y. rem = Num y \<and> 0 \<le> y \<and>
           sum_list (map (\<lambda>(c, t). numOf t) ds) =
             x - y + sum_list (map roundingError (deductTrace a (Num x)))"
  using assms
proof (induction a arbitrary: x a' ds rem)
  case Nil
  then show ?case by simp
next
  case (Cons p rest)
  obtain chain info where p: "p = (chain, info)" by (cases p)
  show ?case
  proof (cases "jgt (chainBalance info) (Num 0)")
    case False
    obtain r1 d1 m1 where rec: "deductLoop rest (Num x) = (r1, d1, m1)"
      by (cases "deductLoop rest (Num x)")
    from Cons.prems(1) p False rec have "ds = d1" "rem = m1" by auto
    with Cons.IH[OF rec Cons.prems(2)] p False show ?thesis by simp
  next
    case True
    then obtain b where b: "chainBalance info = Num b" "0 < b"
      using jgt_zero_finite by blast
    have nn: "0 \<le> fl (x - min b x)" by (rule fl_nonneg) simp
    show ?thesis
    proof (cases "fl (x - min b x) \<le> 0")
      case True
      with Cons.prems p b \<open>jgt (chainBalance info) (Num 0)\<close>
      have "ds = [(chain, Num (min b x))]" "rem = Num (fl (x - min b x))"
        by (auto simp: Let_def)
      with nn p b True show ?thesis by (simp add: Let_def)
    next
      case False
      obtain r1 d1 m1 where rec: "deductLoop rest (Num (fl (x - min b x))) = (r1, d1, m1)"
        by (cases "deductLoop rest (Num (fl (x - min b x)))")
      from Cons.prems(1) p b False rec \<open>jgt (chainBalance info) (Num 0)\<close>
      have e: "ds = (chain, Num (min b x)) # d1" "rem = m1"
        by (auto simp: Let_def)
      from Cons.IH[OF rec nn] obtain y where
        "m1 = Num y" "0 \<le> y"
        "sum_list (map (\<lambda>(c, t). numOf t) d1) =
           fl (x - min b x) - y +
           sum_list (map roundingError (deductTrace rest (Num (fl (x - min b x)))))"
        by blast
      with e p b False show ?thesis by (simp add: Let_def)
    qed
  qed
qed

lemma deductLoop_noneBecomesNegative:
  "noneBecomesNegative a (fst (deductLoop a (Num x)))"
proof (induction a arbitrary: x)
  case Nil
  then show ?case by (simp add: noneBecomesNegative_def)
next
  case (Cons p rest)
  obtain chain info where p: "p = (chain, info)" by (cases p)
  have refl: "noneBecomesNegative rest rest"
    by (simp add: noneBecomesNegative_def list_all2_same split_def)
  show ?case
  proof (cases "jgt (chainBalance info) (Num 0)")
    case False
    with p Cons.IH[of x] show ?thesis
      by (auto simp: noneBecomesNegative_def split: prod.splits)
  next
    case True
    then obtain b where b: "chainBalance info = Num b" "0 < b"
      using jgt_zero_finite by blast
    have nn: "0 \<le> fl (b - min b x)" by (rule fl_nonneg) simp
    show ?thesis
      using p b nn Cons.IH[of "fl (x - min b x)"] refl
      by (auto simp: noneBecomesNegative_def Let_def split: prod.splits)
  qed
qed

lemma ecoClientLoop_moved:
  "fst (snd (snd (ecoClientLoop e t r))) = map (\<lambda>(c, b, r', t). (c, t)) (clientTrace e r)"
  by (induction e t r rule: ecoClientLoop.induct) (auto simp: Let_def split: prod.splits)

lemma clientTrace_min:
  "(c, b, r', t) \<in> set (clientTrace e r) \<Longrightarrow> t = jmin b r'"
  by (induction e r rule: clientTrace.induct) (auto simp: Let_def split: if_splits)

lemma ecoClientLoop_sum:
  assumes "ecoClientLoop e t (Num x) = (e', t', moved, rem)" and "0 \<le> x"
    and "\<forall>(c, i) \<in> set e. chainBalance i \<noteq> NaN"
  shows "\<exists>y. rem = Num y \<and> 0 \<le> y \<and>
           sum_list (map (\<lambda>(c, t). numOf t) moved) =
             x - y + sum_list (map roundingError (clientTrace e (Num x)))"
  using assms
proof (induction e arbitrary: t x e' t' moved rem)
  case Nil
  then show ?case by simp
next
  case (Cons p rest)
  obtain chain info where p: "p = (chain, info)" by (cases p)
  show ?case
  proof (cases "x \<le> 0")
    case True
    with Cons.prems(1) p have "moved = []" "rem = Num x" by auto
    with Cons.prems(2) p True show ?thesis by simp
  next
    case False
    from Cons.prems(3) p obtain b where b: "chainBalance info = Num b"
      by (cases "chainBalance info") auto
    have nn: "0 \<le> fl (x - min b x)" by (rule fl_nonneg) simp
    obtain r1 t1 m1 y1 where
      rec: "ecoClientLoop rest (creditChain t chain (Num (min b x))) (Num (fl (x - min b x)))
              = (r1, t1, m1, y1)"
      by (cases "ecoClientLoop rest (creditChain t chain (Num (min b x)))
                   (Num (fl (x - min b x)))")
    from Cons.prems(1) p b False rec
    have e: "moved = (chain, Num (min b x)) # m1" "rem = y1"
      by (auto simp: Let_def)
    from Cons.prems(3) have "\<forall>(c, i) \<in> set rest. chainBalance i \<noteq> NaN" by simp
    with nn obtain y where
      "y1 = Num y" "0 \<le> y"
      "sum_list (map (\<lambda>(c, t). numOf t) m1) =
         fl (x - min b x) - y +
         sum_list (map roundingError (clientTrace rest (Num (fl (x - min b x)))))"
      using Cons.IH[OF rec] by blast
    with e p b False show ?thesis by (simp add: Let_def)
  qed
qed

lemma ecoClientLoop_noneBecomesNegative:
  assumes "\<forall>(c, i) \<in> set e. chainBalance i \<noteq> NaN"
  shows "noneBecomesNegative e (fst (ecoClientLoop e t (Num x)))"
  using assms
proof (induction e arbitrary: t x)
  case Nil
  then show ?case by (simp add: noneBecomesNegative_def)
next
  case (Cons p rest)
  obtain chain info where p: "p = (chain, info)" by (cases p)
  have refl: "noneBecomesNegative rest rest"
    by (simp add: noneBecomesNegative_def list_all2_same split_def)
  from Cons.prems p obtain b where b: "chainBalance info = Num b"
    by (cases "chainBalance info") auto
  from Cons.prems have fin: "\<forall>(c, i) \<in> set rest. chainBalance i \<noteq> NaN" by simp
  have nn: "0 \<le> fl (b - min b x)" by (rule fl_nonneg) simp
  show ?case
    using p b nn refl
      Cons.IH[OF fin, of "creditChain t chain (Num (min b x))" "fl (x - min b x)"]
    by (auto simp: noneBecomesNegative_def Let_def split: prod.splits)
qed

lemma deductFromEcoWallet_success:
  assumes "deductFromEcoWallet ev wallet amt cur s = (Inr details, s')"
  shows "details = fst (snd (deductLoop (chainsOf (parseAddresses (JSON_parse ev) (address wallet))) amt))"
    and "\<not> jgt (snd (snd (deductLoop (chainsOf (parseAddresses (JSON_parse ev) (address wallet))) amt)))
             (Num 0)"
    and "s' = walletUpdate (wId wallet)
           (\<lambda>w. w\<lparr>address := String (JSON_stringify ev
                   (withChains (parseAddresses (JSON_parse ev) (address wallet))
                      (fst (deductLoop (chainsOf (parseAddresses (JSON_parse ev) (address wallet)))
                              amt))))\<rparr>)
           (ledgerWrites (wId wallet) cur False (map (\<lambda>(chain, a). (chain, jneg a)) details) s)"
  using assms
  by (auto simp: deductFromEcoWallet_def Let_def split: prod.splits if_splits)

lemma handleEcoClientBalanceTransfer_success:
  assumes "handleEcoClientBalanceTransfer ev fromW toW amt cur cd s = (Inr u, s')"
  shows "\<not> jgt (snd (snd (snd (ecoClientLoop
             (getSortedChainBalances ev (parseAddresses (JSON_parse ev) (address fromW)))
             (chainsOf (parseAddresses (JSON_parse ev) (address toW))) amt)))) (Num 0)"
    and "s' = updateWalletBalances fromW toW amt amt (precision cd)
           (clientLedgerWrites (wId fromW) (wId toW) cur
              (fst (snd (snd (ecoClientLoop
                 (getSortedChainBalances ev (parseAddresses (JSON_parse ev) (address fromW)))
                 (chainsOf (parseAddresses (JSON_parse ev) (address toW))) amt)))) s)"
  using assms
  by (auto simp: handleEcoClientBalanceTransfer_def Let_def split: prod.splits if_splits)

text \<open>
  C2, as amended. The claim as written fails in three ways. The amounts are binary64
  numbers and \<open>remainingAmount -= transferableAmount\<close> is rounded: with chains holding
  0.03 and 1 a deduction of 0.32 succeeds and gives 0.03 and 0.29000000000000004, which
  do not sum to 0.32. The sign of the amount is not tested: a deduction of -5 succeeds
  with no detail. And the client loop does not test the chain's balance: a chain whose
  entry has no balance gives \<open>NaN\<close>, and the transfer succeeds. For a deduction of an
  amount that is not negative and that succeeds: each chain visited gives
  \<open>Math.min(balance, remaining)\<close>; the amount remaining ends at exactly 0; what the
  chains give sums to the amount requested up to the rounding errors of the
  subtractions of the remaining amount, and to exactly that amount when these are
  exact; and no chain balance becomes negative. This holds for \<open>deductFromEcoWallet\<close>,
  which then stores the updated map and has written one private-ledger entry per chain
  visited, and for \<open>handleEcoClientBalanceTransfer\<close> over chains whose balances are
  numbers, which then has written two private-ledger entries per chain visited and has
  moved the amount between the two aggregate balances.
\<close>

theorem chain_deduction_distribution:
  "(deductFromEcoWallet ev wallet (Num x) cur s = (Inr details, s') \<and> 0 \<le> x \<longrightarrow>
      details = map (\<lambda>(c, b, r, t). (c, t))
                  (deductTrace (chainsOf (parseAddresses (JSON_parse ev) (address wallet))) (Num x)) \<and>
      (\<forall>(c, b, r, t) \<in> set (deductTrace (chainsOf (parseAddresses (JSON_parse ev) (address wallet)))
                               (Num x)). t = jmin b r) \<and>
      snd (snd (deductLoop (chainsOf (parseAddresses (JSON_parse ev) (address wallet))) (Num x))) =
        Num 0 \<and>
      sum_list (map (\<lambda>(c, t). numOf t) details) =
        x + sum_list (map roundingError
              (deductTrace (chainsOf (parseAddresses (JSON_parse ev) (address wallet))) (Num x))) \<and>
      noneBecomesNegative (chainsOf (parseAddresses (JSON_parse ev) (address wallet)))
        (fst (deductLoop (chainsOf (parseAddresses (JSON_parse ev) (address wallet))) (Num x))) \<and>
      s' = walletUpdate (wId wallet)
             (\<lambda>w. w\<lparr>address := String (JSON_stringify ev
                     (withChains (parseAddresses (JSON_parse ev) (address wallet))
                        (fst (deductLoop (chainsOf (parseAddresses (JSON_parse ev) (address wallet)))
                                (Num x)))))\<rparr>)
             (ledgerWrites (wId wallet) cur False
                (map (\<lambda>(chain, a). (chain, jneg a)) details) s)) \<and>
   (handleEcoClientBalanceTransfer ev fromW toW (Num y) cur2 cd s2 = (Inr u, s2') \<and> 0 \<le> y \<and>
    (\<forall>(c, i) \<in> set (getSortedChainBalances ev (parseAddresses (JSON_parse ev) (address fromW))).
        chainBalance i \<noteq> NaN) \<longrightarrow>
      (\<forall>(c, b, r, t) \<in> set (clientTrace (getSortedChainBalances ev
            (parseAddresses (JSON_parse ev) (address fromW))) (Num y)). t = jmin b r) \<and>
      snd (snd (snd (ecoClientLoop
             (getSortedChainBalances ev (parseAddresses (JSON_parse ev) (address fromW)))
             (chainsOf (parseAddresses (JSON_parse ev) (address toW))) (Num y)))) = Num 0 \<and>
      sum_list (map (\<lambda>(c, b, r, t). numOf t) (clientTrace (getSortedChainBalances ev
            (parseAddresses (JSON_parse ev) (address fromW))) (Num y))) =
        y + sum_list (map roundingError (clientTrace (getSortedChainBalances ev
            (parseAddresses (JSON_parse ev) (address fromW))) (Num y))) \<and>
      noneBecomesNegative
        (getSortedChainBalances ev (parseAddresses (JSON_parse ev) (address fromW)))
        (fst (ecoClientLoop
                (getSortedChainBalances ev (parseAddresses (JSON_parse ev) (address fromW)))
                (chainsOf (parseAddresses (JSON_parse ev) (address toW))) (Num y))) \<and>
      s2' = updateWalletBalances fromW toW (Num y) (Num y) (precision cd)
              (clientLedgerWrites (wId fromW) (wId toW) cur2
                 (map (\<lambda>(c, b, r, t). (c, t)) (clientTrace (getSortedChainBalances ev
                    (parseAddresses (JSON_parse ev) (address fromW))) (Num y))) s2))"
proof (rule conjI; rule impI; elim conjE)
  let ?v = "parseAddresses (JSON_parse ev) (address wallet)"
  let ?a = "chainsOf ?v"
  assume d: "deductFromEcoWallet ev wallet (Num x) cur s = (Inr details, s')" and x: "0 \<le> x"
  note ok = deductFromEcoWallet_success[OF d]
  obtain a' ds rem where l: "deductLoop ?a (Num x) = (a', ds, rem)"
    by (cases "deductLoop ?a (Num x)")
  from ok(1) l have ds: "ds = details" by simp
  from deductLoop_sum[OF l x] obtain z where
    z: "rem = Num z" "0 \<le> z"
       "sum_list (map (\<lambda>(c, t). numOf t) ds) =
          x - z + sum_list (map roundingError (deductTrace ?a (Num x)))"
    by blast
  from ok(2) l z have z0: "z = 0" by simp
  have rem: "snd (snd (deductLoop ?a (Num x))) = Num 0"
    using l z z0 by simp
  have sum: "sum_list (map (\<lambda>(c, t). numOf t) details) =
               x + sum_list (map roundingError (deductTrace ?a (Num x)))"
    using z z0 ds by simp
  have tr: "details = map (\<lambda>(c, b, r, t). (c, t)) (deductTrace ?a (Num x))"
    using deductLoop_details[of ?a "Num x"] l ds by simp
  have mn: "\<forall>(c, b, r, t) \<in> set (deductTrace ?a (Num x)). t = jmin b r"
    using deductTrace_min by fastforce
  from tr mn rem sum deductLoop_noneBecomesNegative[of ?a x] ok(3)
  show "details = map (\<lambda>(c, b, r, t). (c, t)) (deductTrace ?a (Num x)) \<and>
      (\<forall>(c, b, r, t) \<in> set (deductTrace ?a (Num x)). t = jmin b r) \<and>
      snd (snd (deductLoop ?a (Num x))) = Num 0 \<and>
      sum_list (map (\<lambda>(c, t). numOf t) details) =
        x + sum_list (map roundingError (deductTrace ?a (Num x))) \<and>
      noneBecomesNegative ?a (fst (deductLoop ?a (Num x))) \<and>
      s' = walletUpdate (wId wallet)
             (\<lambda>w. w\<lparr>address := String (JSON_stringify ev
                     (withChains ?v (fst (deductLoop ?a (Num x)))))\<rparr>)
             (ledgerWrites (wId wallet) cur False
                (map (\<lambda>(chain, a). (chain, jneg a)) details) s)"
    by (intro conjI)
next
  let ?e = "getSortedChainBalances ev (parseAddresses (JSON_parse ev) (address fromW))"
  let ?t = "chainsOf (parseAddresses (JSON_parse ev) (address toW))"
  assume h: "handleEcoClientBalanceTransfer ev fromW toW (Num y) cur2 cd s2 = (Inr u, s2')"
    and y: "0 \<le> y" and fin: "\<forall>(c, i) \<in> set ?e. chainBalance i \<noteq> NaN"
  note ok = handleEcoClientBalanceTransfer_success[OF h]
  obtain e' t' moved rem where l: "ecoClientLoop ?e ?t (Num y) = (e', t', moved, rem)"
    by (cases "ecoClientLoop ?e ?t (Num y)")
  from ecoClientLoop_sum[OF l y fin] obtain z where
    z: "rem = Num z" "0 \<le> z"
       "sum_list (map (\<lambda>(c, t). numOf t) moved) =
          y - z + sum_list (map roundingError (clientTrace ?e (Num y)))"
    by blast
  from ok(1) l z have z0: "z = 0" by simp
  have rem: "snd (snd (snd (ecoClientLoop ?e ?t (Num y)))) = Num 0"
    using l z z0 by simp
  have mv: "moved = map (\<lambda>(c, b, r, t). (c, t)) (clientTrace ?e (Num y))"
    using ecoClientLoop_moved[of ?e ?t "Num y"] l by simp
  have sum: "sum_list (map (\<lambda>(c, b, r, t). numOf t) (clientTrace ?e (Num y))) =
               y + sum_list (map roundingError (clientTrace ?e (Num y)))"
    using z(3) z0 unfolding mv by (simp add: comp_def split_def)
  have mn: "\<forall>(c, b, r, t) \<in> set (clientTrace ?e (Num y)). t = jmin b r"
    using clientTrace_min by fastforce
  have st: "s2' = updateWalletBalances fromW toW (Num y) (Num y) (precision cd)
              (clientLedgerWrites (wId fromW) (wId toW) cur2
                 (map (\<lambda>(c, b, r, t). (c, t)) (clientTrace ?e (Num y))) s2)"
    using ok(2) l mv by simp
  from mn rem sum ecoClientLoop_noneBecomesNegative[OF fin, of ?t y] st
  show "(\<forall>(c, b, r, t) \<in> set (clientTrace ?e (Num y)). t = jmin b r) \<and>
      snd (snd (snd (ecoClientLoop ?e ?t (Num y)))) = Num 0 \<and>
      sum_list (map (\<lambda>(c, b, r, t). numOf t) (clientTrace ?e (Num y))) =
        y + sum_list (map roundingError (clientTrace ?e (Num y))) \<and>
      noneBecomesNegative ?e (fst (ecoClientLoop ?e ?t (Num y))) \<and>
      s2' = updateWalletBalances fromW toW (Num y) (Num y) (precision cd)
              (clientLedgerWrites (wId fromW) (wId toW) cur2
                 (map (\<lambda>(c, b, r, t). (c, t)) (clientTrace ?e (Num y))) s2)"
    by (intro conjI)
qed

text \<open>The values of the deduction of 0.32 from chains holding 0.03 and 1.\<close>

lemma dust_loop:
  "deductLoop [(''chainA'', chainOf (fl (3 / 100))), (''chainB'', chainOf 1)]
     (parseFloat (Numeric (32 / 100))) =
   ([(''chainA'', chainOf 0), (''chainB'', chainOf (fl (1 - fl (fl (32 / 100) - fl (3 / 100)))))],
    [(''chainA'', Num (fl (3 / 100))), (''chainB'', Num (fl (fl (32 / 100) - fl (3 / 100))))],
    Num 0)"
  by code_simp

lemma dust_values:
  "fl (3 / 100) = 1080863910568919 / 36028797018963968"
  "fl (fl (32 / 100) - fl (3 / 100)) = 326510972984361 / 1125899906842624"
  "fl (32 / 100) = 5764607523034235 / 18014398509481984"
  "fl (29 / 100) = 5224175567749775 / 18014398509481984"
  by code_simp+

lemma dust_sum:
  "sumNum [Num (fl (3 / 100)), Num (fl (fl (32 / 100) - fl (3 / 100)))] \<noteq>
     parseFloat (Numeric (32 / 100))"
  "fl (3 / 100) + fl (fl (32 / 100) - fl (3 / 100)) \<noteq> fl (32 / 100)"
  by code_simp+

lemma dust_deduction:
  "\<exists>s'. deductFromEcoWallet exampleEnv dustWallet (parseFloat (Numeric (32 / 100))) ''USDT''
          \<lparr>committed = exampleDb, working = exampleDb\<rparr> =
        (Inr [(''chainA'', Num (fl (3 / 100))),
              (''chainB'', Num (fl (fl (32 / 100) - fl (3 / 100))))], s')"
  using dust_loop
  by (simp add: deductFromEcoWallet_def dustWallet_def exampleEnv_def Let_def)

theorem deduction_sum_counterexample:
  "(\<exists>s'. deductFromEcoWallet exampleEnv dustWallet (parseFloat (Numeric (32 / 100))) ''USDT''
          \<lparr>committed = exampleDb, working = exampleDb\<rparr> =
        (Inr [(''chainA'', Num (fl (3 / 100))),
              (''chainB'', Num (fl (fl (32 / 100) - fl (3 / 100))))], s')) \<and>
   sumNum [Num (fl (3 / 100)), Num (fl (fl (32 / 100) - fl (3 / 100)))] \<noteq>
     parseFloat (Numeric (32 / 100)) \<and>
   fl (3 / 100) + fl (fl (32 / 100) - fl (3 / 100)) \<noteq> fl (32 / 100) \<and>
   (\<exists>s'. deductFromEcoWallet exampleEnv (wallets exampleDb ! 2) (Num (- 5)) ''USDT''
            \<lparr>committed = exampleDb, working = exampleDb\<rparr> = (Inr [], s')) \<and>
   sumNum (map snd ([] :: deductionDetail list)) \<noteq> Num (- 5) \<and>
   (\<exists>r d'. processInternalTransfer exampleEnv exampleDb ''bob'' ''alice'' ''USDT'' ''chainA''
             (Numeric (- 5)) = (Inr r, d')) \<and>
   (\<exists>s'. handleEcoClientBalanceTransfer exampleEnv blankWallet (wallets exampleDb ! 2) (Num 100)
          ''USDT'' \<lparr>precision = 8\<rparr> \<lparr>committed = exampleDb, working = exampleDb\<rparr> = (Inr (), s')) \<and>
   clientTrace (getSortedChainBalances exampleEnv
      (parseAddresses (JSON_parse exampleEnv) (address blankWallet))) (Num 100) =
     [(''chainA'', NaN, Num 100, NaN)] \<and>
   sumNum [NaN] \<noteq> Num 100"
proof -
  have neg: "(\<exists>s'. deductFromEcoWallet exampleEnv (wallets exampleDb ! 2) (Num (- 5)) ''USDT''
            \<lparr>committed = exampleDb, working = exampleDb\<rparr> = (Inr [], s')) \<and>
     sumNum (map snd ([] :: deductionDetail list)) \<noteq> Num (- 5) \<and>
     (\<exists>r d'. processInternalTransfer exampleEnv exampleDb ''bob'' ''alice'' ''USDT'' ''chainA''
             (Numeric (- 5)) = (Inr r, d'))"
    by (simp add: transfer_defs example_defs)
  have nan: "(\<exists>s'. handleEcoClientBalanceTransfer exampleEnv blankWallet (wallets exampleDb ! 2)
          (Num 100) ''USDT'' \<lparr>precision = 8\<rparr> \<lparr>committed = exampleDb, working = exampleDb\<rparr> =
          (Inr (), s')) \<and>
     clientTrace (getSortedChainBalances exampleEnv
        (parseAddresses (JSON_parse exampleEnv) (address blankWallet))) (Num 100) =
       [(''chainA'', NaN, Num 100, NaN)] \<and>
     sumNum [NaN] \<noteq> Num 100"
    by (simp add: transfer_defs example_defs blankWallet_def)
  from dust_deduction dust_sum neg nan show ?thesis by (intro conjI) simp_all
qed

lemma example_deduction:
  "\<exists>s'. deductFromEcoWallet exampleEnv (wallets exampleDb ! 1) (Num 100) ''USDT''
           \<lparr>committed = exampleDb, working = exampleDb\<rparr> =
         (Inr [(''chainA'', Num 30), (''chainB'', Num 70)], s')"
  by (simp add: transfer_defs example_defs)

lemma example_client_move:
  "\<exists>s'. handleEcoClientBalanceTransfer exampleEnv (wallets exampleDb ! 1) (wallets exampleDb ! 2)
           (Num 100) ''USDT'' \<lparr>precision = 8\<rparr> \<lparr>committed = exampleDb, working = exampleDb\<rparr> =
         (Inr (), s')"
  by (simp add: transfer_defs example_defs)

lemma example_chains:
  "chainsOf (parseAddresses (JSON_parse exampleEnv) (address (wallets exampleDb ! 1))) =
     [(''chainA'', chainOf 30), (''chainB'', chainOf 80)]"
  "getSortedChainBalances exampleEnv
     (parseAddresses (JSON_parse exampleEnv) (address (wallets exampleDb ! 1))) =
     [(''chainA'', chainOf 30), (''chainB'', chainOf 80)]"
  "chainsOf (parseAddresses (JSON_parse exampleEnv) (address dustWallet)) =
     [(''chainA'', chainOf (fl (3 / 100))), (''chainB'', chainOf 1)]"
  by (simp_all add: example_defs dustWallet_def)

lemma example_traces:
  "deductTrace [(''chainA'', chainOf 30), (''chainB'', chainOf 80)] (Num 100) =
     [(''chainA'', Num 30, Num 100, Num 30), (''chainB'', Num 80, Num 70, Num 70)]"
  "clientTrace [(''chainA'', chainOf 30), (''chainB'', chainOf 80)] (Num 100) =
     [(''chainA'', Num 30, Num 100, Num 30), (''chainB'', Num 80, Num 70, Num 70)]"
  "map roundingError [(''chainA'', Num 30, Num 100, Num 30), (''chainB'', Num 80, Num 70, Num 70)]
     = [0, 0]"
  by (simp_all add: chainOf_def Let_def)

theorem chain_deduction_distribution_witness:
  "(\<exists>s'. deductFromEcoWallet exampleEnv (wallets exampleDb ! 1) (Num 100) ''USDT''
           \<lparr>committed = exampleDb, working = exampleDb\<rparr> =
         (Inr [(''chainA'', Num 30), (''chainB'', Num 70)], s')) \<and>
   sum_list (map (\<lambda>(c, t). numOf t) [(''chainA'', Num 30), (''chainB'', Num (70::rat))]) =
     100 + sum_list [0, 0] \<and>
   snd (snd (deductLoop [(''chainA'', chainOf 30), (''chainB'', chainOf 80)] (Num 100))) = Num 0 \<and>
   sum_list (map (\<lambda>(c, b, r, t). numOf t)
     (clientTrace [(''chainA'', chainOf 30), (''chainB'', chainOf 80)] (Num 100))) =
     100 + sum_list [0, 0] \<and>
   (\<exists>s'. deductFromEcoWallet exampleEnv dustWallet (Num (fl (32 / 100))) ''USDT''
           \<lparr>committed = exampleDb, working = exampleDb\<rparr> =
         (Inr [(''chainA'', Num (fl (3 / 100))),
               (''chainB'', Num (fl (fl (32 / 100) - fl (3 / 100))))], s')) \<and>
   sum_list (map (\<lambda>(c, t). numOf t)
       [(''chainA'', Num (fl (3 / 100))), (''chainB'', Num (fl (fl (32 / 100) - fl (3 / 100))))]) =
     fl (32 / 100) +
     sum_list (map roundingError
       (deductTrace [(''chainA'', chainOf (fl (3 / 100))), (''chainB'', chainOf 1)]
          (Num (fl (32 / 100)))))"
proof -
  let ?s0 = "\<lparr>committed = exampleDb, working = exampleDb\<rparr>"
  from example_deduction obtain s' where
    d: "deductFromEcoWallet exampleEnv (wallets exampleDb ! 1) (Num 100) ''USDT'' ?s0 =
         (Inr [(''chainA'', Num 30), (''chainB'', Num 70)], s')"
    by blast
  from example_client_move obtain s2' where
    h: "handleEcoClientBalanceTransfer exampleEnv (wallets exampleDb ! 1) (wallets exampleDb ! 2)
           (Num 100) ''USDT'' \<lparr>precision = 8\<rparr> ?s0 = (Inr (), s2')"
    by blast
  have fin: "\<forall>(c, i) \<in> set [(''chainA'', chainOf 30), (''chainB'', chainOf 80)].
               chainBalance i \<noteq> NaN"
    by (simp add: chainOf_def)
  note t = chain_deduction_distribution[of exampleEnv "wallets exampleDb ! 1" 100 "''USDT''"
      ?s0 "[(''chainA'', Num 30), (''chainB'', Num 70)]"
      s' "wallets exampleDb ! 1" "wallets exampleDb ! 2" 100 "''USDT''" "\<lparr>precision = 8\<rparr>"
      ?s0 "()" s2']
  have p1: "deductFromEcoWallet exampleEnv (wallets exampleDb ! 1) (Num 100) ''USDT'' ?s0 =
         (Inr [(''chainA'', Num 30), (''chainB'', Num 70)], s') \<and> (0::rat) \<le> 100"
    using d by simp
  note c1 = t[THEN conjunct1, THEN mp, OF p1, unfolded example_chains example_traces]
  have a: "sum_list (map (\<lambda>(c, t). numOf t) [(''chainA'', Num 30), (''chainB'', Num (70::rat))]) =
     100 + sum_list [0, 0]"
    by (rule c1[THEN conjunct2, THEN conjunct2, THEN conjunct2, THEN conjunct1])
  have a0: "snd (snd (deductLoop [(''chainA'', chainOf 30), (''chainB'', chainOf 80)] (Num 100))) =
     Num 0"
    by (rule c1[THEN conjunct2, THEN conjunct2, THEN conjunct1])
  have p2: "handleEcoClientBalanceTransfer exampleEnv (wallets exampleDb ! 1)
              (wallets exampleDb ! 2) (Num 100) ''USDT'' \<lparr>precision = 8\<rparr> ?s0 = (Inr (), s2') \<and>
            (0::rat) \<le> 100 \<and>
            (\<forall>(c, i) \<in> set (getSortedChainBalances exampleEnv
                 (parseAddresses (JSON_parse exampleEnv) (address (wallets exampleDb ! 1)))).
               chainBalance i \<noteq> NaN)"
    using h fin unfolding example_chains by simp
  note c2 = t[THEN conjunct2, THEN mp, OF p2, unfolded example_chains]
  have b: "sum_list (map (\<lambda>(c, b, r, t). numOf t)
     (clientTrace [(''chainA'', chainOf 30), (''chainB'', chainOf 80)] (Num 100))) =
     100 + sum_list [0, 0]"
    using c2[THEN conjunct2, THEN conjunct2, THEN conjunct1] unfolding example_traces .
  from dust_deduction obtain s3 where
    d3: "deductFromEcoWallet exampleEnv dustWallet (Num (fl (32 / 100))) ''USDT'' ?s0 =
         (Inr [(''chainA'', Num (fl (3 / 100))),
               (''chainB'', Num (fl (fl (32 / 100) - fl (3 / 100))))], s3)"
    by auto
  have p3: "deductFromEcoWallet exampleEnv dustWallet (Num (fl (32 / 100))) ''USDT'' ?s0 =
         (Inr [(''chainA'', Num (fl (3 / 100))),
               (''chainB'', Num (fl (fl (32 / 100) - fl (3 / 100))))], s3) \<and>
            0 \<le> fl (32 / 100)"
    using d3 by (simp add: fl_nonneg)
  note c3 = chain_deduction_distribution[of exampleEnv dustWallet "fl (32 / 100)" "''USDT''"
      ?s0 "[(''chainA'', Num (fl (3 / 100))),
            (''chainB'', Num (fl (fl (32 / 100) - fl (3 / 100))))]" s3,
      THEN conjunct1, THEN mp, OF p3, unfolded example_chains]
  have c: "sum_list (map (\<lambda>(c, t). numOf t)
       [(''chainA'', Num (fl (3 / 100))), (''chainB'', Num (fl (fl (32 / 100) - fl (3 / 100))))]) =
     fl (32 / 100) +
     sum_list (map roundingError
       (deductTrace [(''chainA'', chainOf (fl (3 / 100))), (''chainB'', chainOf 1)]
          (Num (fl (32 / 100)))))"
    by (rule c3[THEN conjunct2, THEN conjunct2, THEN conjunct2, THEN conjunct1])
  from d a a0 b d3 c show ?thesis by blast
qed

section \<open>Balances after a completed transfer\<close>

lemma handleNonClientTransfer_wallets:
  assumes "\<not> (wType fw = ''ECO'' \<and> wType tw = ''ECO'')"
  shows "handleNonClientTransfer ev fw tw amt fc tgt cd s =
           (Inr (), updateWalletBalances fw tw amt tgt (precision cd) s)"
  using assms by (auto simp: handleNonClientTransfer_def)

lemma completed_transfer_balances:
  assumes "performTransaction ev tt fw tw amt fc tc uid cid ft tty cd d = (Inr (out, inc), d')"
    and "\<not> requiresPrivateLedgerUpdate ev tt ft tty"
    and "\<not> (ft = ''ECO'' \<and> tt = ''client'')"
    and "\<not> (wType fw = ''ECO'' \<and> wType tw = ''ECO'')"
  shows "wallets d' =
           map (\<lambda>w. if wId w = wId tw
                     then w\<lparr>balance := roundTo (precision cd)
                            (jadd (balance tw)
                               (jsub amt (calculateTransferFee amt (orZero (feeSetting ev)))))\<rparr>
                     else w)
             (map (\<lambda>w. if wId w = wId fw
                       then w\<lparr>balance := roundTo (precision cd) (jsub (balance fw) amt)\<rparr>
                       else w)
                (wallets d))"
proof -
  let ?fee = "calculateTransferFee amt (orZero (feeSetting ev))"
  let ?s0 = "\<lparr>committed = d, working = d\<rparr>"
  from performTransaction_success(1)[OF assms(1)] obtain s' where
    b: "performTransactionBody ev tt fw tw amt ?fee (jsub amt ?fee) fc tc uid cid ft tty cd ?s0
          = (Inr (out, inc), s')" and d': "d' = working s'"
    by blast
  note r = recordTransfers_result[OF performTransactionBody_records[OF b]]
  have "handleCompleteTransfer ev fw tw amt (jsub amt ?fee) tt ft fc cd ?s0 =
          (Inr (), updateWalletBalances fw tw amt (jsub amt ?fee) (precision cd) ?s0)"
    using assms(3) handleNonClientTransfer_wallets[OF assms(4)]
    by (auto simp: handleCompleteTransfer_def)
  with r(5) assms(2) d' show ?thesis
    by (simp add: updateWalletBalances_def Let_def)
qed

lemma eco_client_transfer_balances:
  assumes "performTransaction ev ''client'' fw tw amt fc tc uid cid ''ECO'' tty cd d
             = (Inr (out, inc), d')"
    and "\<not> requiresPrivateLedgerUpdate ev ''client'' ''ECO'' tty"
  shows "wallets d' =
           map (\<lambda>w. if wId w = wId tw
                     then w\<lparr>balance := roundTo (precision cd) (jadd (balance tw) amt)\<rparr>
                     else w)
             (map (\<lambda>w. if wId w = wId fw
                       then w\<lparr>balance := roundTo (precision cd) (jsub (balance fw) amt)\<rparr>
                       else w)
                (wallets d))"
proof -
  let ?fee = "calculateTransferFee amt (orZero (feeSetting ev))"
  let ?s0 = "\<lparr>committed = d, working = d\<rparr>"
  from performTransaction_success(1)[OF assms(1)] obtain s' where
    b: "performTransactionBody ev ''client'' fw tw amt ?fee (jsub amt ?fee) fc tc uid cid
          ''ECO'' tty cd ?s0 = (Inr (out, inc), s')" and d': "d' = working s'"
    by blast
  note r = recordTransfers_result[OF performTransactionBody_records[OF b]]
  obtain e s1 where h: "handleEcoClientBalanceTransfer ev fw tw amt fc cd ?s0 = (e, s1)"
    by (cases "handleEcoClientBalanceTransfer ev fw tw amt fc cd ?s0")
  from b h assms(2) have "e = Inr ()"
    by (cases e) (auto simp: performTransactionBody_def handleCompleteTransfer_def Let_def)
  with h have "wallets (working s1) =
           map (\<lambda>w. if wId w = wId tw
                     then w\<lparr>balance := roundTo (precision cd) (jadd (balance tw) amt)\<rparr>
                     else w)
             (map (\<lambda>w. if wId w = wId fw
                       then w\<lparr>balance := roundTo (precision cd) (jsub (balance fw) amt)\<rparr>
                       else w)
                (wallets d))"
    by (auto simp: handleEcoClientBalanceTransfer_def updateWalletBalances_def Let_def
        split: prod.splits if_splits)
  with r(5) assms(2) h d' show ?thesis
    by (simp add: handleCompleteTransfer_def)
qed

text \<open>
  C1. The claim holds on the wallet-to-wallet path (\<open>completed_transfer_balances\<close>:
  the source goes down by the amount and the destination up by the amount minus the fee,
  each rounded to the currency's precision), and the code breaks it on the client ECO
  path: \<open>handleEcoClientBalanceTransfer\<close> passes \<open>parsedAmount\<close> to
  \<open>updateWalletBalances\<close> as the credit as well as the debit, so the destination goes up
  by the whole amount (\<open>eco_client_transfer_balances\<close>). In the worked example Alice
  sends 100 USDT to Bob at a fee of one percent: the incoming row says 99, the admin
  profit says 1, and Bob's balance goes from 0 to 100.
\<close>

theorem eco_client_credits_gross_amount:
  "\<exists>r d'. createTransfer exampleEnv exampleDb (Some ''alice'') clientBody = (Inr r, d') \<and>
          amount (fromTransfer r) = Num 100 \<and> fee (fromTransfer r) = Num 1 \<and>
          amount (toTransfer r) = Num 99 \<and>
          balanceOf exampleDb 2 = Some (Num 110) \<and> balanceOf d' 2 = Some (Num 10) \<and>
          balanceOf exampleDb 3 = Some (Num 0) \<and> balanceOf d' 3 = Some (Num 100) \<and>
          map profitAmount (adminProfits d') = [Num 1]"
  by (simp add: transfer_defs example_defs balanceOf_def)

section \<open>An amount that is not a number\<close>

text \<open>
  C8. The claim is that a request whose amount is not numeric fails with a validation
  error before anything is written. The code has no such check: \<open>parseFloat\<close> gives
  \<open>NaN\<close>, both balance guards compare with \<open><\<close> and so do not fire, and the transfer
  goes through. In the worked example the destination wallet is created, Alice's balance
  becomes \<open>NaN\<close> and two rows with the amount \<open>NaN\<close> are written.
\<close>

theorem nonnumeric_amount_accepted:
  "\<exists>r d'. createTransfer exampleEnv exampleDb (Some ''alice'')
            (walletBody\<lparr>amountIn := NonNumeric\<rparr>) = (Inr r, d') \<and>
          amount (fromTransfer r) = NaN \<and> amount (toTransfer r) = NaN \<and>
          transactions d' = [fromTransfer r, toTransfer r] \<and>
          balanceOf exampleDb 1 = Some (Num 100) \<and> balanceOf d' 1 = Some NaN \<and>
          length (wallets d') = Suc (length (wallets exampleDb))"
  by (simp add: transfer_defs example_defs balanceOf_def)

section \<open>A deduction that fails half way\<close>

lemma handleEcoClientBalanceTransfer_committed:
  "committed (snd (handleEcoClientBalanceTransfer ev fw tw amt fc cd s)) = committed s"
  by (simp add: handleEcoClientBalanceTransfer_def Let_def split: prod.splits)

lemma deductFromEcoWallet_committed:
  assumes "deductFromEcoWallet ev w a c s = (r, s')"
  shows "wallets (committed s') = wallets (committed s)"
    and "transactions (committed s') = transactions (committed s)"
    and "adminProfits (committed s') = adminProfits (committed s)"
  using assms
  by (auto simp: deductFromEcoWallet_def Let_def split: prod.splits if_splits)

lemma client_transfer_failure_rolls_back:
  assumes "performTransaction ev ''client'' fw tw amt fc tc uid cid ''ECO'' tty cd d = (Inl e, d')"
  shows "d' = d"
proof (cases "jlt (balance fw) amt")
  case True
  with assms show ?thesis by (simp add: performTransaction_def Let_def)
next
  case False
  let ?fee = "calculateTransferFee amt (orZero (feeSetting ev))"
  let ?s0 = "\<lparr>committed = d, working = d\<rparr>"
  obtain r s' where
    b: "performTransactionBody ev ''client'' fw tw amt ?fee (jsub amt ?fee) fc tc uid cid
          ''ECO'' tty cd ?s0 = (r, s')"
    by (cases "performTransactionBody ev ''client'' fw tw amt ?fee (jsub amt ?fee) fc tc uid cid
          ''ECO'' tty cd ?s0")
  from assms False b have d': "d' = committed s'"
    by (auto simp: performTransaction_def sequelize_transaction_def Let_def split: sum.splits)
  have "committed s' = d"
  proof (cases "requiresPrivateLedgerUpdate ev ''client'' ''ECO'' tty")
    case True
    with b show ?thesis
      using recordTransfers_result(7)
      by (auto simp: performTransactionBody_def Let_def split: prod.splits)
  next
    case False
    obtain x s1 where h: "handleEcoClientBalanceTransfer ev fw tw amt fc cd ?s0 = (x, s1)"
      by (cases "handleEcoClientBalanceTransfer ev fw tw amt fc cd ?s0")
    have c1: "committed s1 = d"
      using handleEcoClientBalanceTransfer_committed[of ev fw tw amt fc cd ?s0] h by simp
    from b h False c1 show ?thesis
      using recordTransfers_result(7)
      by (cases x)
         (auto simp: performTransactionBody_def handleCompleteTransfer_def Let_def
            split: prod.splits)
  qed
  with d' show ?thesis by simp
qed

text \<open>
  C3. The claim is that a chain deduction whose chains hold less than the amount fails
  with an insufficient-funds error and leaves no trace. It fails with that error, and
  the wallets and the transaction rows are as before; but \<open>deductFromEcoWallet\<close> calls
  \<open>updatePrivateLedger\<close> without the transaction handle, so the private-ledger entries
  of the chains it had visited stay after the rollback. (The client loop gives the
  handle to each of its writes, and a client ECO transfer that fails leaves the state as
  it was: \<open>client_transfer_failure_rolls_back\<close>.) Here Alice's chains hold 110 and she
  sends 120.
\<close>

theorem failed_deduction_leaves_ledger_entries:
  "\<exists>d'. processInternalTransfer exampleEnv toppedUpDb ''alice'' ''bob'' ''USDT'' ''chainA''
            (Numeric 120) =
          (Inl (Err 400 ''Insufficient chain balance to complete the transfer''), d') \<and>
        privateLedger toppedUpDb = [] \<and>
        privateLedger d' =
          [\<lparr>ledgerWalletId = 2, ledgerIndex = 0, ledgerCurrency = ''USDT'',
            ledgerChain = ''chainA'', difference = Num (- 30)\<rparr>,
           \<lparr>ledgerWalletId = 2, ledgerIndex = 0, ledgerCurrency = ''USDT'',
            ledgerChain = ''chainB'', difference = Num (- 80)\<rparr>] \<and>
        wallets d' = wallets toppedUpDb \<and> transactions d' = transactions toppedUpDb"
  by (simp add: transfer_defs example_defs)

end
